theory Spec2Isabelle
  imports Main
begin

section \<open>Errors\<close>

text \<open>
  Go errors are values that form a chain through \<open>Unwrap\<close>. The sentinels of the two
  packages are constructors; \<open>Wrapf msg e\<close> is \<open>fmt.Errorf(msg + ": %w", e)\<close> and
  \<open>errors.Wrap(e, msg)\<close>; \<open>ErrorString\<close> is any other \<open>errors.New\<close>;
  \<open>hex_ErrLength\<close> and \<open>hex_InvalidByteError\<close> are the two errors of \<open>encoding/hex\<close>.

  Modelled from the spec: \<open>HermesErrorResponse\<close>, the structured hermes error, is declared
  outside the covered sources. It wraps a cause (\<open>Unwrap\<close>) and carries the payload that
  \<open>Data()\<close> returns.
\<close>

datatype error =
    ErrorInvalidProposal
  | ErrorSessionNotExists
  | ErrorWrongSessionOwner
  | ErrNeedsRRecovery
  | ErrHermesNoPreviousPromise
  | ErrAttemptToOverwrite
  | hex_ErrLength
  | hex_InvalidByteError char
  | ErrorString string
  | Wrapf string error
  | HermesErrorResponse error string

fun Unwrap :: "error \<Rightarrow> error option" where
  "Unwrap (Wrapf msg e) = Some e"
| "Unwrap (HermesErrorResponse c d) = Some c"
| "Unwrap e = None"

text \<open>
  \<open>errors.Is\<close>: walks the chain and compares each link with the target. Go compares
  by identity; the targets of the sources are sentinels, which are compared alike here.
\<close>

fun errors_Is :: "error \<Rightarrow> error \<Rightarrow> bool" where
  "errors_Is (Wrapf msg e) target = (Wrapf msg e = target \<or> errors_Is e target)"
| "errors_Is (HermesErrorResponse c d) target =
     (HermesErrorResponse c d = target \<or> errors_Is c target)"
| "errors_Is e target = (e = target)"

text \<open>
  \<open>errors.As(err, &aer)\<close> with \<open>aer\<close> of type \<open>HermesErrorResponse\<close>: the first link of
  the chain of that type, as its cause and its payload.
\<close>

fun errors_As :: "error \<Rightarrow> (error \<times> string) option" where
  "errors_As (HermesErrorResponse c d) = Some (c, d)"
| "errors_As (Wrapf msg e) = errors_As e"
| "errors_As e = None"

definition Data :: "error \<times> string \<Rightarrow> string" where
  "Data aer = snd aer"

section \<open>Session manager (package service)\<close>

subsection \<open>Data\<close>

text \<open>
  Record fields share one name space, so \<open>Session.ID\<close> is \<open>SessionID\<close> and
  \<open>Session.done\<close> is \<open>doneCh\<close> here. A channel is a reference: \<open>doneCh\<close> is \<open>None\<close>
  for the nil channel of the zero \<open>Session{}\<close> and \<open>Some c\<close> for the channel allocated at
  address \<open>c\<close>. A \<open>Session\<close> is copied by value, the channel it names is shared.
\<close>

record Identity =
  Address :: string

record ServiceProposal =
  ID :: int
  ServiceType :: string
  ProviderID :: string

record Session =
  SessionID :: string
  ServiceID :: string
  ConsumerID :: Identity
  AccountantID :: string
  Proposal :: ServiceProposal
  doneCh :: "nat option"
  CreatedAt :: nat

definition empty_Session :: Session where
  "empty_Session =
     \<lparr>SessionID = [], ServiceID = [], ConsumerID = \<lparr>Address = []\<rparr>, AccountantID = [],
      Proposal = \<lparr>ID = 0, ServiceType = [], ProviderID = []\<rparr>, doneCh = None, CreatedAt = 0\<rparr>"

record FindOpts =
  Peer :: Identity
  FindServiceType :: string

record KeepAliveConfig =
  SendInterval :: nat
  SendTimeout :: nat
  MaxSendErrCount :: int

record Config =
  KeepAlive :: KeepAliveConfig

text \<open>\<open>DefaultConfig\<close> (lines 79-87); durations are nanoseconds.\<close>

definition DefaultConfig :: Config where
  "DefaultConfig =
     \<lparr>KeepAlive = \<lparr>SendInterval = 180000000000, SendTimeout = 5000000000, MaxSendErrCount = 5\<rparr>\<rparr>"

datatype chan_state = Open | Closed

text \<open>Goroutines started with \<open>go\<close>, in the order they were started.\<close>

datatype goroutine =
    GoStopOnDone Session
  | GoEngineStart Session
  | GoDestroySession Session
  | GoKeepAliveLoop Session

text \<open>Calls to the collaborators of the manager, in the order they were made.\<close>

datatype mevent =
    EvPaymentEngineFactory string Identity string string
  | EvWaitFirstInvoice string nat
  | EvEngineStop string
  | EvChannelClose
  | EvChannelHandle string
  | EvChannelSend string string

text \<open>
  The manager and what it shares with its goroutines: the store, the mutex
  \<open>creationLock\<close> (\<open>True\<close> while held), the p2p channel (\<open>None\<close> is nil), the \<open>done\<close>
  channels by address, with \<open>nextChan\<close> the next address \<open>make\<close> hands out.
\<close>

record SessionManager =
  currentProposal :: ServiceProposal
  sessionStorage :: "Session list"
  serviceId :: string
  creationLock :: bool
  channel :: "chan_state option"
  config :: Config
  doneChans :: "nat \<Rightarrow> chan_state"
  nextChan :: nat
  goroutines :: "goroutine list"
  calls :: "mevent list"

text \<open>
  How a call ends: it returns a value, it panics, or it parks at \<open>Lock\<close> on a mutex that
  is held. Each carries the manager as the call left it.
\<close>

datatype 'a outcome =
    Returns 'a SessionManager
  | Panics SessionManager
  | Blocks SessionManager

text \<open>
  \<open>NewSessionManager\<close> (lines 129-149), with the store, the p2p channel and the
  configuration it is given; no \<open>done\<close> channel exists yet, nothing has been started
  or called.
\<close>

definition NewSessionManager ::
  "ServiceProposal \<Rightarrow> Session list \<Rightarrow> string \<Rightarrow> chan_state option \<Rightarrow> Config \<Rightarrow> SessionManager" where
  "NewSessionManager proposal storage sid chan cfg =
     \<lparr>currentProposal = proposal, sessionStorage = storage, serviceId = sid,
      creationLock = False, channel = chan, config = cfg, doneChans = (\<lambda>c. Open),
      nextChan = 0, goroutines = [], calls = []\<rparr>"

subsection \<open>Session store\<close>

text \<open>
  Modelled from the spec: the \<open>Storage\<close> implementation is outside the covered sources.
  \<open>Add\<close> inserts and a duplicate id overwrites; \<open>Find\<close> looks up by id; \<open>FindBy\<close> looks
  up by peer and service type (the first match here; the spec leaves ties open);
  \<open>Remove\<close> is idempotent.
\<close>

definition storage_Add :: "Session \<Rightarrow> Session list \<Rightarrow> Session list" where
  "storage_Add s ss = filter (\<lambda>x. SessionID x \<noteq> SessionID s) ss @ [s]"

definition storage_Find :: "string \<Rightarrow> Session list \<Rightarrow> Session option" where
  "storage_Find i ss = find (\<lambda>x. SessionID x = i) ss"

definition storage_FindBy :: "FindOpts \<Rightarrow> Session list \<Rightarrow> Session option" where
  "storage_FindBy opts ss =
     find (\<lambda>x. ConsumerID x = Peer opts \<and> ServiceType (Proposal x) = FindServiceType opts) ss"

definition storage_Remove :: "string \<Rightarrow> Session list \<Rightarrow> Session list" where
  "storage_Remove i ss = filter (\<lambda>x. SessionID x \<noteq> i) ss"

subsection \<open>Channels, the mutex, goroutines\<close>

text \<open>\<open>make(chan struct{})\<close>: a fresh open channel.\<close>

definition make_chan :: "SessionManager \<Rightarrow> nat \<times> SessionManager" where
  "make_chan m =
     (nextChan m, m\<lparr>doneChans := (doneChans m)(nextChan m := Open), nextChan := Suc (nextChan m)\<rparr>)"

text \<open>\<open>close(ch)\<close>: panics on the nil channel and on a closed channel (\<open>None\<close>).\<close>

definition close_chan :: "nat option \<Rightarrow> SessionManager \<Rightarrow> SessionManager option" where
  "close_chan ch m =
     (case ch of
        None \<Rightarrow> None
      | Some c \<Rightarrow>
          (case doneChans m c of
             Closed \<Rightarrow> None
           | Open \<Rightarrow> Some (m\<lparr>doneChans := (doneChans m)(c := Closed)\<rparr>)))"

definition spawn :: "goroutine \<Rightarrow> SessionManager \<Rightarrow> SessionManager" where
  "spawn g m = m\<lparr>goroutines := goroutines m @ [g]\<rparr>"

definition record_call :: "mevent \<Rightarrow> SessionManager \<Rightarrow> SessionManager" where
  "record_call e m = m\<lparr>calls := calls m @ [e]\<rparr>"

subsection \<open>destroySession, Destroy\<close>

text \<open>
  \<open>destroySession\<close> (lines 267-274): \<open>Lock\<close>, deferred \<open>Unlock\<close>, \<open>Remove\<close>, \<open>close\<close>.
  \<open>sync.Mutex\<close> is not reentrant: \<open>Lock\<close> on a held mutex parks the caller. The deferred
  \<open>Unlock\<close> also runs when \<open>close\<close> panics.
\<close>

definition destroySession :: "Session \<Rightarrow> SessionManager \<Rightarrow> unit outcome" where
  "destroySession session m =
     (if creationLock m then Blocks m
      else
        let m1 = m\<lparr>creationLock := True\<rparr>;
            m2 = m1\<lparr>sessionStorage := storage_Remove (SessionID session) (sessionStorage m1)\<rparr>
        in case close_chan (doneCh session) m2 of
             None \<Rightarrow> Panics (m2\<lparr>creationLock := False\<rparr>)
           | Some m3 \<Rightarrow> Returns () (m3\<lparr>creationLock := False\<rparr>))"

text \<open>
  \<open>Destroy\<close> (lines 252-265). \<open>manager.channel.Close()\<close> on a nil channel is a nil
  dereference.
\<close>

definition Destroy :: "Identity \<Rightarrow> string \<Rightarrow> SessionManager \<Rightarrow> error option outcome" where
  "Destroy consumerID sessionID m =
     (case storage_Find sessionID (sessionStorage m) of
        None \<Rightarrow> Returns (Some ErrorSessionNotExists) m
      | Some session \<Rightarrow>
          if ConsumerID session \<noteq> consumerID then Returns (Some ErrorWrongSessionOwner) m
          else
            (case channel m of
               None \<Rightarrow> Panics m
             | Some st \<Rightarrow>
                 (case destroySession session (record_call EvChannelClose (m\<lparr>channel := Some Closed\<rparr>)) of
                    Returns u m' \<Rightarrow> Returns None m'
                  | Panics m' \<Rightarrow> Panics m'
                  | Blocks m' \<Rightarrow> Blocks m')))"

subsection \<open>Start\<close>

text \<open>
  What the collaborators answer during one \<open>Start\<close>: \<open>NewSession()\<close> (outside the covered
  sources: a session with a generated id, or an error), the payment engine factory
  (\<open>None\<close>: an engine), \<open>engine.WaitFirstInvoice\<close>, and \<open>time.Now().UTC()\<close>.
\<close>

record StartEnv =
  NewSession :: "error + Session"
  paymentEngineFactory :: "error option"
  WaitFirstInvoice :: "error option"
  timeNow :: nat

text \<open>\<open>clearStaleSession\<close> (lines 238-249).\<close>

definition clearStaleSession :: "Identity \<Rightarrow> string \<Rightarrow> SessionManager \<Rightarrow> SessionManager" where
  "clearStaleSession consumerID serviceType m =
     (case storage_FindBy \<lparr>Peer = consumerID, FindServiceType = serviceType\<rparr> (sessionStorage m) of
        Some session \<Rightarrow> spawn (GoDestroySession session) m
      | None \<Rightarrow> m)"

text \<open>
  \<open>Start\<close> (lines 166-217). The deferred \<open>Unlock\<close> runs on every return and on a panic,
  not when the goroutine is parked. 30 seconds are 30000000000 nanoseconds.
\<close>

definition Start ::
  "StartEnv \<Rightarrow> Identity \<Rightarrow> string \<Rightarrow> int \<Rightarrow> SessionManager \<Rightarrow> (Session \<times> error option) outcome" where
  "Start env consumerID accountantID proposalID m =
     (if creationLock m then Blocks m
      else
        let m1 = m\<lparr>creationLock := True\<rparr> in
        if ID (currentProposal m1) \<noteq> proposalID
        then Returns (empty_Session, Some ErrorInvalidProposal) (m1\<lparr>creationLock := False\<rparr>)
        else
          let m2 = clearStaleSession consumerID (ServiceType (currentProposal m1)) m1 in
          case NewSession env of
            Inl err \<Rightarrow>
              Returns (empty_Session, Some (Wrapf ''cannot create new session'' err))
                (m2\<lparr>creationLock := False\<rparr>)
          | Inr new \<Rightarrow>
              let (c, m3) = make_chan m2;
                  session = new\<lparr>ServiceID := serviceId m3, ConsumerID := consumerID,
                                AccountantID := accountantID, Proposal := currentProposal m3,
                                doneCh := Some c, CreatedAt := timeNow env\<rparr>;
                  m4 = record_call
                         (EvPaymentEngineFactory (ProviderID (currentProposal m3)) consumerID
                            accountantID (SessionID session)) m3
              in case paymentEngineFactory env of
                   Some err \<Rightarrow> Returns (session, Some err) (m4\<lparr>creationLock := False\<rparr>)
                 | None \<Rightarrow>
                     let m5 = spawn (GoStopOnDone session) m4;
                         m6 = spawn (GoEngineStart session) m5;
                         m7 = record_call (EvWaitFirstInvoice (SessionID session) 30000000000) m6
                     in case WaitFirstInvoice env of
                          Some err \<Rightarrow>
                            (case destroySession session m7 of
                               Returns u m8 \<Rightarrow>
                                 Returns (session, Some (Wrapf ''first invoice was not paid'' err))
                                   (m8\<lparr>creationLock := False\<rparr>)
                             | Panics m8 \<Rightarrow> Panics (m8\<lparr>creationLock := False\<rparr>)
                             | Blocks m8 \<Rightarrow> Blocks m8)
                        | None \<Rightarrow>
                            let m8 = spawn (GoKeepAliveLoop session) m7;
                                m9 = m8\<lparr>sessionStorage := storage_Add session (sessionStorage m8)\<rparr>
                            in Returns (session, None) (m9\<lparr>creationLock := False\<rparr>))"

text \<open>
  The two goroutines of \<open>Start\<close> that touch the session. Lines 199-205: \<open>engine.Start()\<close>
  has returned \<open>res\<close>; an error destroys the session. Lines 194-197: once \<open>done\<close> is
  closed the engine is stopped; until then the goroutine waits.
\<close>

definition go_engine_Start :: "error option \<Rightarrow> Session \<Rightarrow> SessionManager \<Rightarrow> unit outcome" where
  "go_engine_Start res session m =
     (case res of None \<Rightarrow> Returns () m | Some err \<Rightarrow> destroySession session m)"

definition go_stop_on_done :: "Session \<Rightarrow> SessionManager \<Rightarrow> unit outcome" where
  "go_stop_on_done session m =
     (case doneCh session of
        None \<Rightarrow> Blocks m
      | Some c \<Rightarrow>
          (case doneChans m c of
             Open \<Rightarrow> Blocks m
           | Closed \<Rightarrow> Returns () (record_call (EvEngineStop (SessionID session)) m)))"

subsection \<open>keepAliveLoop\<close>





section \<open>Hermes promise handler (package pingpong)\<close>

subsection \<open>encoding/hex\<close>

text \<open>
  A Go \<open>[]byte\<close> and a Go \<open>string\<close> are both sequences of bytes: \<open>string\<close> here, a
  \<open>char\<close> being one byte. \<open>hex.EncodeToString\<close> writes two lower-case digits per byte;
  \<open>hex.DecodeString\<close> reads digits of either case and reports the first bad byte, or the
  odd length.
\<close>

type_synonym bytes = string

definition hextable :: string where
  "hextable = ''0123456789abcdef''"

fun hex_EncodeToString :: "bytes \<Rightarrow> string" where
  "hex_EncodeToString [] = []"
| "hex_EncodeToString (b # bs) =
     hextable ! (of_char b div 16) # hextable ! (of_char b mod 16) # hex_EncodeToString bs"

definition fromHexChar :: "char \<Rightarrow> nat option" where
  "fromHexChar c =
     (let n = (of_char c :: nat) in
      if 48 \<le> n \<and> n \<le> 57 then Some (n - 48)
      else if 97 \<le> n \<and> n \<le> 102 then Some (n - 97 + 10)
      else if 65 \<le> n \<and> n \<le> 70 then Some (n - 65 + 10)
      else None)"

fun hex_DecodeString :: "string \<Rightarrow> error + bytes" where
  "hex_DecodeString [] = Inr []"
| "hex_DecodeString [p] =
     (case fromHexChar p of None \<Rightarrow> Inl (hex_InvalidByteError p) | Some a \<Rightarrow> Inl hex_ErrLength)"
| "hex_DecodeString (p # q # rest) =
     (case fromHexChar p of
        None \<Rightarrow> Inl (hex_InvalidByteError p)
      | Some a \<Rightarrow>
          (case fromHexChar q of
             None \<Rightarrow> Inl (hex_InvalidByteError q)
           | Some b \<Rightarrow>
               (case hex_DecodeString rest of
                  Inl e \<Rightarrow> Inl e
                | Inr bs \<Rightarrow> Inr (char_of (a * 16 + b) # bs))))"

subsection \<open>Data\<close>

text \<open>
  Fields carry a prefix of their struct (\<open>em_\<close> \<open>ExchangeMessage\<close>, \<open>p_\<close> \<open>Promise\<close>,
  \<open>rp_\<close> \<open>RequestPromise\<close>, \<open>hp_\<close> \<open>HermesPromise\<close>, \<open>rd_\<close> \<open>rRecoveryDetails\<close>,
  \<open>er_\<close> \<open>enqueuedRequest\<close>), since several structs share field names. A \<open>*big.Int\<close>
  is its value. An address is the text of a \<open>common.Address\<close>. The structs of other packages
  keep the fields the handler reads and one field for the rest.
\<close>

type_synonym address = string

record ExchangeMessage =
  em_HermesID :: string
  em_AgreementID :: int
  em_AgreementTotal :: int
  em_ChainID :: int
  em_rest :: string

record Promise =
  p_ChainID :: int
  p_rest :: string

record FeesResponse =
  Fee :: int
  ValidUntil :: nat

record RequestPromise =
  rp_ExchangeMessage :: ExchangeMessage
  rp_TransactorFee :: int
  rp_RRecoveryData :: string

record HermesPromise =
  hp_ChannelID :: string
  hp_Identity :: Identity
  hp_HermesID :: address
  hp_Promise :: Promise
  hp_R :: string
  hp_Revealed :: bool
  hp_AgreementID :: int

record rRecoveryDetails =
  rd_R :: string
  rd_AgreementID :: int

record enqueuedRequest =
  er_errChan :: nat
  er_r :: bytes
  er_em :: ExchangeMessage
  er_providerID :: Identity
  er_sessionID :: string

text \<open>Calls to the collaborators of the handler, in the order they were made.\<close>

datatype hevent =
    EvFetchSettleFees int
  | EvEncrypt address bytes
  | EvDecrypt address bytes
  | EvGetHermesURL address
  | EvHermesCallerFactory string
  | EvRequestPromise string RequestPromise
  | EvRevealR string string string int
  | EvStore HermesPromise
  | EvPublishHermesPromise Promise address Identity
  | EvPublishTokensEarned Identity string int

text \<open>
  The collaborators (\<open>HermesPromiseHandlerDeps\<close> and the libraries the handler calls).
  An interface call answers from the calls made so far, so an answer may change from one
  call to the next. A hermes caller is named by the URL the factory was given. Library
  functions are pure: \<open>crypto.GenerateProviderChannelID\<close>, \<open>json.Marshal\<close> and
  \<open>json.Unmarshal\<close> at \<open>rRecoveryDetails\<close>, \<open>common.HexToAddress\<close>, \<open>Address.Hex\<close>,
  \<open>Identity.ToCommonAddress\<close>; \<open>chainID\<close> is \<open>config.GetInt64(config.FlagChainID)\<close>.
\<close>

record Deps =
  Store :: "hevent list \<Rightarrow> HermesPromise \<Rightarrow> error option"
  FetchSettleFees :: "hevent list \<Rightarrow> int \<Rightarrow> error + FeesResponse"
  IsValid :: "hevent list \<Rightarrow> FeesResponse \<Rightarrow> bool"
  Encrypt :: "hevent list \<Rightarrow> address \<Rightarrow> bytes \<Rightarrow> error + bytes"
  Decrypt :: "hevent list \<Rightarrow> address \<Rightarrow> bytes \<Rightarrow> error + bytes"
  GetHermesURL :: "hevent list \<Rightarrow> address \<Rightarrow> error + string"
  caller_RequestPromise :: "hevent list \<Rightarrow> string \<Rightarrow> RequestPromise \<Rightarrow> Promise \<times> error option"
  caller_RevealR :: "hevent list \<Rightarrow> string \<Rightarrow> string \<Rightarrow> string \<Rightarrow> int \<Rightarrow> error option"
  GenerateProviderChannelID :: "string \<Rightarrow> string \<Rightarrow> error + string"
  json_Marshal :: "rRecoveryDetails \<Rightarrow> error + bytes"
  json_Unmarshal :: "bytes \<Rightarrow> error + rRecoveryDetails"
  HexToAddress :: "string \<Rightarrow> address"
  Hex :: "address \<Rightarrow> string"
  ToCommonAddress :: "Identity \<Rightarrow> address"
  chainID :: int

text \<open>What is done to an error channel: a value sent, the channel closed.\<close>

datatype chan_op = ChanSend error | ChanClose

text \<open>
  The handler: the cached fee, the queue, the calls made so far, and what has been done
  to each error channel, by address (\<open>nextErrChan\<close> is the next address \<open>make\<close> hands out).
\<close>

record HermesPromiseHandler =
  transactorFee :: FeesResponse
  queue :: "enqueuedRequest list"
  history :: "hevent list"
  chanOps :: "nat \<Rightarrow> chan_op list"
  nextErrChan :: nat

definition called :: "hevent \<Rightarrow> HermesPromiseHandler \<Rightarrow> HermesPromiseHandler" where
  "called e s = s\<lparr>history := history s @ [e]\<rparr>"

definition chan_send :: "nat \<Rightarrow> error \<Rightarrow> HermesPromiseHandler \<Rightarrow> HermesPromiseHandler" where
  "chan_send c e s = s\<lparr>chanOps := (chanOps s)(c := chanOps s c @ [ChanSend e])\<rparr>"

definition chan_close :: "nat \<Rightarrow> HermesPromiseHandler \<Rightarrow> HermesPromiseHandler" where
  "chan_close c s = s\<lparr>chanOps := (chanOps s)(c := chanOps s c @ [ChanClose])\<rparr>"

subsection \<open>The handler's functions\<close>

text \<open>\<open>RequestPromise\<close> (lines 429-439). The queue holds 100 entries; a send to a full
  queue parks the caller (\<open>None\<close>).\<close>

definition RequestPromise ::
  "bytes \<Rightarrow> ExchangeMessage \<Rightarrow> Identity \<Rightarrow> string \<Rightarrow> HermesPromiseHandler
     \<Rightarrow> (nat \<times> HermesPromiseHandler) option" where
  "RequestPromise r em providerID sessionID s =
     (let c = nextErrChan s;
          s1 = s\<lparr>chanOps := (chanOps s)(c := []), nextErrChan := Suc c\<rparr>;
          er = \<lparr>er_errChan = c, er_r = r, er_em = em, er_providerID = providerID,
                er_sessionID = sessionID\<rparr>
      in if length (queue s1) < 100 then Some (c, s1\<lparr>queue := queue s1 @ [er]\<rparr>) else None)"

text \<open>\<open>updateFee\<close> (lines 441-449).\<close>

definition updateFee :: "Deps \<Rightarrow> HermesPromiseHandler \<Rightarrow> HermesPromiseHandler" where
  "updateFee deps s =
     (let res = FetchSettleFees deps (history s) (chainID deps);
          s1 = called (EvFetchSettleFees (chainID deps)) s
      in case res of Inl err \<Rightarrow> s1 | Inr fees \<Rightarrow> s1\<lparr>transactorFee := fees\<rparr>)"

text \<open>\<open>getHermesCaller\<close> (lines 590-596); the caller is the URL it was made for.\<close>

definition getHermesCaller ::
  "Deps \<Rightarrow> address \<Rightarrow> HermesPromiseHandler \<Rightarrow> (error + string) \<times> HermesPromiseHandler" where
  "getHermesCaller deps hermesID s =
     (let res = GetHermesURL deps (history s) hermesID;
          s1 = called (EvGetHermesURL hermesID) s
      in case res of
           Inl err \<Rightarrow> (Inl (Wrapf ''could not get hermes URL'' err), s1)
         | Inr addr \<Rightarrow> (Inr addr, called (EvHermesCallerFactory addr) s1))"

text \<open>\<open>recoverR\<close> (lines 648-679).\<close>

definition recoverR ::
  "Deps \<Rightarrow> error \<times> string \<Rightarrow> Identity \<Rightarrow> address \<Rightarrow> HermesPromiseHandler
     \<Rightarrow> error option \<times> HermesPromiseHandler" where
  "recoverR deps aerr providerID hermesID s =
     (case hex_DecodeString (Data aerr) of
        Inl err \<Rightarrow> (Some (Wrapf ''could not decode R recovery details'' err), s)
      | Inr decoded \<Rightarrow>
          let dres = Decrypt deps (history s) (ToCommonAddress deps providerID) decoded;
              s1 = called (EvDecrypt (ToCommonAddress deps providerID) decoded) s
          in case dres of
               Inl err \<Rightarrow> (Some (Wrapf ''could not decrypt R details'' err), s1)
             | Inr decrypted \<Rightarrow>
                 (case json_Unmarshal deps decrypted of
                    Inl err \<Rightarrow> (Some (Wrapf ''could not unmarshal R details'' err), s1)
                  | Inr res \<Rightarrow>
                      (case getHermesCaller deps hermesID s1 of
                         (Inl err, s2) \<Rightarrow> (Some (Wrapf ''could not get hermes caller'' err), s2)
                       | (Inr hermesCaller, s2) \<Rightarrow>
                           let rres = caller_RevealR deps (history s2) hermesCaller (rd_R res)
                                        (Address providerID) (rd_AgreementID res);
                               s3 = called (EvRevealR hermesCaller (rd_R res) (Address providerID)
                                              (rd_AgreementID res)) s2
                           in case rres of
                                Some err \<Rightarrow> (Some (Wrapf ''could not reveal R'' err), s3)
                              | None \<Rightarrow> (None, s3))))"

text \<open>\<open>handleHermesError\<close> (lines 623-646).\<close>

definition handleHermesError ::
  "Deps \<Rightarrow> error option \<Rightarrow> Identity \<Rightarrow> address \<Rightarrow> HermesPromiseHandler
     \<Rightarrow> error option \<times> HermesPromiseHandler" where
  "handleHermesError deps err providerID hermesID s =
     (case err of
        None \<Rightarrow> (None, s)
      | Some e \<Rightarrow>
          if errors_Is e ErrNeedsRRecovery then
            (case errors_As e of
               None \<Rightarrow> (Some (ErrorString ''could not cast errNeedsRecovery to hermesError''), s)
             | Some aer \<Rightarrow>
                 (case recoverR deps aer providerID hermesID s of
                    (Some recoveryErr, s') \<Rightarrow> (Some recoveryErr, s')
                  | (None, s') \<Rightarrow> (None, s')))
          else if errors_Is e ErrHermesNoPreviousPromise then (None, s)
          else (Some e, s))"

text \<open>
  \<open>revealR\<close> (lines 598-621). Line 611 formats \<open>err\<close>, what \<open>RevealR\<close> returned, not
  \<open>handledErr\<close>; with a nil \<open>err\<close>, which no run reaches there, \<open>%w\<close> prints as below.
\<close>

definition revealR ::
  "Deps \<Rightarrow> HermesPromise \<Rightarrow> HermesPromiseHandler \<Rightarrow> error option \<times> HermesPromiseHandler" where
  "revealR deps hermesPromise s =
     (if hp_Revealed hermesPromise then (None, s)
      else
        case getHermesCaller deps (hp_HermesID hermesPromise) s of
          (Inl err, s1) \<Rightarrow> (Some (Wrapf ''could not get hermes caller'' err), s1)
        | (Inr hermesCaller, s1) \<Rightarrow>
            let err = caller_RevealR deps (history s1) hermesCaller (hp_R hermesPromise)
                        (Address (hp_Identity hermesPromise)) (hp_AgreementID hermesPromise);
                s2 = called (EvRevealR hermesCaller (hp_R hermesPromise)
                               (Address (hp_Identity hermesPromise)) (hp_AgreementID hermesPromise)) s1
            in case handleHermesError deps err (hp_Identity hermesPromise)
                      (hp_HermesID hermesPromise) s2 of
                 (Some handledErr, s3) \<Rightarrow>
                   (case err of
                      Some e \<Rightarrow> (Some (Wrapf ''could not reveal R'' e), s3)
                    | None \<Rightarrow> (Some (ErrorString ''could not reveal R: %!w(<nil>)''), s3))
               | (None, s3) \<Rightarrow>
                   let revealed = hermesPromise\<lparr>hp_Revealed := True\<rparr>;
                       serr = Store deps (history s3) revealed;
                       s4 = called (EvStore revealed) s3
                   in case serr of
                        None \<Rightarrow> (None, s4)
                      | Some e \<Rightarrow>
                          if \<not> errors_Is e ErrAttemptToOverwrite
                          then (Some (Wrapf ''could not store hermes promise'' e), s4)
                          else (None, s4))"

text \<open>
  \<open>requestPromise\<close> (lines 501-588), in three parts. Last part, lines 571-587: the two
  events, \<open>revealR\<close>, and its error handled once more.
\<close>

definition requestPromise_reveal ::
  "Deps \<Rightarrow> enqueuedRequest \<Rightarrow> address \<Rightarrow> Promise \<Rightarrow> HermesPromise \<Rightarrow> HermesPromiseHandler
     \<Rightarrow> HermesPromiseHandler" where
  "requestPromise_reveal deps er hermesID promise ap s =
     (let s1 = called (EvPublishHermesPromise promise hermesID (er_providerID er)) s;
          s2 = called (EvPublishTokensEarned (er_providerID er) (er_sessionID er)
                         (em_AgreementTotal (er_em er))) s1
      in case revealR deps ap s2 of
           (err, s3) \<Rightarrow>
             (case handleHermesError deps err (er_providerID er) hermesID s3 of
                (Some e, s4) \<Rightarrow> chan_send (er_errChan er) (Wrapf ''hermes reveal r error'' e) s4
              | (None, s4) \<Rightarrow> s4))"

text \<open>Middle part, lines 551-569: the promise is stored with \<open>Revealed = false\<close>. A chain
  id that differs is logged only.\<close>

definition requestPromise_store ::
  "Deps \<Rightarrow> enqueuedRequest \<Rightarrow> string \<Rightarrow> address \<Rightarrow> Promise \<Rightarrow> HermesPromiseHandler
     \<Rightarrow> HermesPromiseHandler" where
  "requestPromise_store deps er channelID hermesID promise s =
     (let ap = \<lparr>hp_ChannelID = channelID, hp_Identity = er_providerID er, hp_HermesID = hermesID,
                hp_Promise = promise, hp_R = hex_EncodeToString (er_r er), hp_Revealed = False,
                hp_AgreementID = em_AgreementID (er_em er)\<rparr>;
          serr = Store deps (history s) ap;
          s1 = called (EvStore ap) s
      in case serr of
           None \<Rightarrow> requestPromise_reveal deps er hermesID promise ap s1
         | Some e \<Rightarrow>
             if \<not> errors_Is e ErrAttemptToOverwrite
             then chan_send (er_errChan er) (Wrapf ''could not store hermes promise'' e) s1
             else requestPromise_reveal deps er hermesID promise ap s1)"

text \<open>First part, lines 501-549, with the deferred \<open>close(er.errChan)\<close> around all of it.\<close>

definition requestPromise :: "Deps \<Rightarrow> enqueuedRequest \<Rightarrow> HermesPromiseHandler \<Rightarrow> HermesPromiseHandler" where
  "requestPromise deps er s =
     chan_close (er_errChan er)
       (let providerID = er_providerID er;
            hermesID = HexToAddress deps (em_HermesID (er_em er))
        in case GenerateProviderChannelID deps (Address providerID) (Hex deps hermesID) of
             Inl err \<Rightarrow>
               chan_send (er_errChan er) (Wrapf ''could not generate provider channel address'' err) s
           | Inr channelID \<Rightarrow>
               let s1 = (if \<not> IsValid deps (history s) (transactorFee s) then updateFee deps s else s);
                   details = \<lparr>rd_R = hex_EncodeToString (er_r er),
                              rd_AgreementID = em_AgreementID (er_em er)\<rparr>
               in case json_Marshal deps details of
                    Inl err \<Rightarrow>
                      chan_send (er_errChan er) (Wrapf ''could not marshal R recovery details'' err) s1
                  | Inr plain \<Rightarrow>
                      let eres = Encrypt deps (history s1) (ToCommonAddress deps providerID) plain;
                          s2 = called (EvEncrypt (ToCommonAddress deps providerID) plain) s1
                      in case eres of
                           Inl err \<Rightarrow> chan_send (er_errChan er) (Wrapf ''could not encrypt R'' err) s2
                         | Inr encrypted \<Rightarrow>
                             let request = \<lparr>rp_ExchangeMessage = er_em er,
                                            rp_TransactorFee = Fee (transactorFee s2),
                                            rp_RRecoveryData = hex_EncodeToString encrypted\<rparr>
                             in case getHermesCaller deps hermesID s2 of
                                  (Inl err, s3) \<Rightarrow>
                                    chan_send (er_errChan er) (Wrapf ''could not get hermes caller'' err) s3
                                | (Inr hermesCaller, s3) \<Rightarrow>
                                    (case caller_RequestPromise deps (history s3) hermesCaller request of
                                       (promise, err) \<Rightarrow>
                                         (case handleHermesError deps err providerID hermesID
                                                 (called (EvRequestPromise hermesCaller request) s3) of
                                            (Some e, s5) \<Rightarrow>
                                              chan_send (er_errChan er)
                                                (Wrapf ''hermes request promise error'' e) s5
                                          | (None, s5) \<Rightarrow>
                                              requestPromise_store deps er channelID hermesID promise s5)))"

text \<open>One turn of the worker \<open>handleRequests\<close> (lines 451-462) that takes an entry from
  the queue; with an empty queue it waits (\<open>None\<close>).\<close>

definition handleRequests_entry :: "Deps \<Rightarrow> HermesPromiseHandler \<Rightarrow> HermesPromiseHandler option" where
  "handleRequests_entry deps s =
     (case queue s of
        [] \<Rightarrow> None
      | entry # rest \<Rightarrow> Some (requestPromise deps entry (s\<lparr>queue := rest\<rparr>)))"

text \<open>
  \<open>NewHermesPromiseHandler\<close> (lines 408-414): an empty queue, no channel yet, and the
  zero \<open>FeesResponse\<close>, whose nil \<open>Fee\<close> is 0 here.
\<close>

definition NewHermesPromiseHandler :: HermesPromiseHandler where
  "NewHermesPromiseHandler =
     \<lparr>transactorFee = \<lparr>Fee = 0, ValidUntil = 0\<rparr>, queue = [], history = [],
      chanOps = (\<lambda>c. []), nextErrChan = 0\<rparr>"

section \<open>Notions used in the statements\<close>



text \<open>
  Every step of the per-request algorithm succeeded, in the words of the spec (4.C, steps
  1 to 9), in three parts. The fee refresh of step 2 is best effort and fails no request;
  in steps 6 and 9 the error handling policy is applied once to what the hermes answered;
  in steps 7 and 9 a storage error that is \<open>ErrAttemptToOverwrite\<close> is swallowed.
  Steps 8 and 9: the two events are published; then \<open>RevealR\<close> is called on the hermes
  caller (resolved again, for the calls to be the ones the handler makes), the error
  handling is applied, and on success the promise is stored with \<open>Revealed = true\<close>.
\<close>

definition reveal_step_succeeds ::
  "Deps \<Rightarrow> enqueuedRequest \<Rightarrow> address \<Rightarrow> Promise \<Rightarrow> HermesPromise \<Rightarrow> HermesPromiseHandler \<Rightarrow> bool" where
  "reveal_step_succeeds deps er hermesID promise ap s =
     (case getHermesCaller deps (hp_HermesID ap)
             (called (EvPublishTokensEarned (er_providerID er) (er_sessionID er)
                        (em_AgreementTotal (er_em er)))
                (called (EvPublishHermesPromise promise hermesID (er_providerID er)) s)) of
        (Inl err, s1) \<Rightarrow> False
      | (Inr hermesCaller, s1) \<Rightarrow>
          (case handleHermesError deps
                  (caller_RevealR deps (history s1) hermesCaller (hp_R ap)
                     (Address (hp_Identity ap)) (hp_AgreementID ap))
                  (hp_Identity ap) (hp_HermesID ap)
                  (called (EvRevealR hermesCaller (hp_R ap) (Address (hp_Identity ap))
                             (hp_AgreementID ap)) s1) of
             (Some e, s2) \<Rightarrow> False
           | (None, s2) \<Rightarrow>
               (case Store deps (history s2) (ap\<lparr>hp_Revealed := True\<rparr>) of
                  None \<Rightarrow> True
                | Some e \<Rightarrow> errors_Is e ErrAttemptToOverwrite)))"

text \<open>The promise that step 7 stores, with \<open>Revealed = false\<close>.\<close>

definition unrevealed_promise ::
  "enqueuedRequest \<Rightarrow> string \<Rightarrow> address \<Rightarrow> Promise \<Rightarrow> HermesPromise" where
  "unrevealed_promise er channelID hermesID promise =
     \<lparr>hp_ChannelID = channelID, hp_Identity = er_providerID er, hp_HermesID = hermesID,
      hp_Promise = promise, hp_R = hex_EncodeToString (er_r er), hp_Revealed = False,
      hp_AgreementID = em_AgreementID (er_em er)\<rparr>"

text \<open>Step 7, then steps 8 and 9.\<close>

definition store_steps_succeed ::
  "Deps \<Rightarrow> enqueuedRequest \<Rightarrow> string \<Rightarrow> address \<Rightarrow> Promise \<Rightarrow> HermesPromiseHandler \<Rightarrow> bool" where
  "store_steps_succeed deps er channelID hermesID promise s =
     (let ap = unrevealed_promise er channelID hermesID promise
      in (case Store deps (history s) ap of
            None \<Rightarrow> True
          | Some e \<Rightarrow> errors_Is e ErrAttemptToOverwrite) \<and>
         reveal_step_succeeds deps er hermesID promise ap (called (EvStore ap) s))"

text \<open>The handler after step 2: the fee is fetched again when the cached one is not valid.\<close>

definition fee_refreshed :: "Deps \<Rightarrow> HermesPromiseHandler \<Rightarrow> HermesPromiseHandler" where
  "fee_refreshed deps s =
     (if \<not> IsValid deps (history s) (transactorFee s) then updateFee deps s else s)"

text \<open>Steps 1 to 6, then the rest.\<close>

definition requestPromise_steps_succeed :: "Deps \<Rightarrow> enqueuedRequest \<Rightarrow> HermesPromiseHandler \<Rightarrow> bool" where
  "requestPromise_steps_succeed deps er s =
     (let providerID = er_providerID er;
          hermesID = HexToAddress deps (em_HermesID (er_em er))
      in case GenerateProviderChannelID deps (Address providerID) (Hex deps hermesID) of
           Inl err \<Rightarrow> False
         | Inr channelID \<Rightarrow>
             let s1 = fee_refreshed deps s
             in case json_Marshal deps \<lparr>rd_R = hex_EncodeToString (er_r er),
                                        rd_AgreementID = em_AgreementID (er_em er)\<rparr> of
                  Inl err \<Rightarrow> False
                | Inr plain \<Rightarrow>
                    (case Encrypt deps (history s1) (ToCommonAddress deps providerID) plain of
                       Inl err \<Rightarrow> False
                     | Inr encrypted \<Rightarrow>
                         (let s2 = called (EvEncrypt (ToCommonAddress deps providerID) plain) s1;
                              request = \<lparr>rp_ExchangeMessage = er_em er,
                                         rp_TransactorFee = Fee (transactorFee s2),
                                         rp_RRecoveryData = hex_EncodeToString encrypted\<rparr>
                          in case getHermesCaller deps hermesID s2 of
                               (Inl err, s3) \<Rightarrow> False
                             | (Inr hermesCaller, s3) \<Rightarrow>
                                 (case caller_RequestPromise deps (history s3) hermesCaller request of
                                    (promise, err) \<Rightarrow>
                                      (case handleHermesError deps err providerID hermesID
                                              (called (EvRequestPromise hermesCaller request) s3) of
                                         (Some e, s5) \<Rightarrow> False
                                       | (None, s5) \<Rightarrow>
                                           store_steps_succeed deps er channelID hermesID promise s5)))))"

text \<open>Between two states of the handler, one value was sent on channel \<open>c\<close> and no
  other channel was touched.\<close>

definition sends_one :: "nat \<Rightarrow> HermesPromiseHandler \<Rightarrow> HermesPromiseHandler \<Rightarrow> bool" where
  "sends_one c s s' = (\<exists>e. chanOps s' = (chanOps s)(c := chanOps s c @ [ChanSend e]))"

text \<open>The calls of one state of the handler continue those of another.\<close>

definition extends_history :: "HermesPromiseHandler \<Rightarrow> HermesPromiseHandler \<Rightarrow> bool" where
  "extends_history s s' = (\<exists>t. history s' = history s @ t)"

text \<open>A store of a promise with \<open>Revealed = true\<close>.\<close>

fun is_revealed_Store :: "hevent \<Rightarrow> bool" where
  "is_revealed_Store (EvStore p) = hp_Revealed p"
| "is_revealed_Store e = False"

text \<open>A call of \<open>RevealR\<close>.\<close>

fun is_RevealR :: "hevent \<Rightarrow> bool" where
  "is_RevealR (EvRevealR u r p a) = True"
| "is_RevealR e = False"

section \<open>Concrete inputs\<close>

text \<open>
  A provider with proposal 7, a consumer, a manager with an empty store, and a manager
  whose store holds session \<open>s1\<close> of that consumer with its \<open>done\<close> channel at address 0.
\<close>

definition consumerC :: Identity where
  "consumerC = \<lparr>Address = ''0xc0''\<rparr>"

definition proposal7 :: ServiceProposal where
  "proposal7 = \<lparr>ID = 7, ServiceType = ''wireguard'', ProviderID = ''0xa0''\<rparr>"

definition manager0 :: SessionManager where
  "manager0 = NewSessionManager proposal7 [] ''service-1'' (Some Open) DefaultConfig"

definition session1 :: Session where
  "session1 =
     \<lparr>SessionID = ''s1'', ServiceID = ''service-1'', ConsumerID = consumerC,
      AccountantID = ''0xacc'', Proposal = proposal7, doneCh = Some 0, CreatedAt = 1\<rparr>"

definition manager1 :: SessionManager where
  "manager1 =
     (NewSessionManager proposal7 [session1] ''service-1'' (Some Open) DefaultConfig)\<lparr>nextChan := 1\<rparr>"


definition fresh2 :: Session where
  "fresh2 = empty_Session\<lparr>SessionID := ''s2''\<rparr>"

text \<open>Collaborators of \<open>Start\<close>: the first invoice is paid; the first invoice times out.\<close>

definition env_paid :: StartEnv where
  "env_paid =
     \<lparr>NewSession = Inr fresh2, paymentEngineFactory = None, WaitFirstInvoice = None, timeNow = 2\<rparr>"

definition env_unpaid :: StartEnv where
  "env_unpaid =
     \<lparr>NewSession = Inr fresh2, paymentEngineFactory = None,
      WaitFirstInvoice = Some (ErrorString ''timeout''), timeNow = 2\<rparr>"

text \<open>
  Collaborators of the handler that all answer well, with a toy cipher (reversal) and a
  JSON codec that knows the one value \<open>details_ab\<close>; and the same with a hermes whose
  \<open>RevealR\<close> demands a recovery with a payload that is no hex text.
\<close>

definition providerP :: Identity where
  "providerP = \<lparr>Address = ''0xa0''\<rparr>"

definition details_ab :: rRecoveryDetails where
  "details_ab = \<lparr>rd_R = ''ab'', rd_AgreementID = 42\<rparr>"

definition deps_ok :: Deps where
  "deps_ok =
     \<lparr>Store = (\<lambda>h p. None),
      FetchSettleFees = (\<lambda>h c. Inr \<lparr>Fee = 1, ValidUntil = 100\<rparr>),
      IsValid = (\<lambda>h f. 0 < ValidUntil f),
      Encrypt = (\<lambda>h a plain. Inr (rev plain)),
      Decrypt = (\<lambda>h a cipher. Inr (rev cipher)),
      GetHermesURL = (\<lambda>h a. Inr ''https://hermes''),
      caller_RequestPromise =
        (\<lambda>h u rq. (\<lparr>p_ChainID = em_ChainID (rp_ExchangeMessage rq), p_rest = ''signed''\<rparr>, None)),
      caller_RevealR = (\<lambda>h u r p a. None),
      GenerateProviderChannelID = (\<lambda>p h. Inr (p @ h)),
      json_Marshal =
        (\<lambda>d. if d = details_ab then Inr ''{r:ab,agreement_id:42}''
             else Inl (ErrorString ''json: unsupported value'')),
      json_Unmarshal =
        (\<lambda>b. if b = ''{r:ab,agreement_id:42}'' then Inr details_ab
             else Inl (ErrorString ''json: invalid'')),
      HexToAddress = (\<lambda>x. x),
      Hex = (\<lambda>x. x),
      ToCommonAddress = Address,
      chainID = 1\<rparr>"

definition promise_ab :: HermesPromise where
  "promise_ab =
     \<lparr>hp_ChannelID = ''0xa00xe0'', hp_Identity = providerP, hp_HermesID = ''0xe0'',
      hp_Promise = \<lparr>p_ChainID = 1, p_rest = ''signed''\<rparr>, hp_R = ''ab'', hp_Revealed = False,
      hp_AgreementID = 42\<rparr>"

definition deps_zz :: Deps where
  "deps_zz =
     deps_ok\<lparr>caller_RevealR := (\<lambda>h u r p a. Some (HermesErrorResponse ErrNeedsRRecovery ''zz''))\<rparr>"

text \<open>
  The request of scenario 5: R is the byte \<open>0xAB\<close>, agreement 42. A hermes URL getter
  that fails once a \<open>Decrypt\<close> was made, with a hermes that answers
  \<open>RequestPromise\<close> with \<open>ErrNeedsRRecovery\<close> carrying the payload it was sent; a store
  that answers \<open>ErrAttemptToOverwrite\<close>, wrapped; a store that answers another error.
\<close>

definition em_42 :: ExchangeMessage where
  "em_42 =
     \<lparr>em_HermesID = ''0xe0'', em_AgreementID = 42, em_AgreementTotal = 1000, em_ChainID = 1,
      em_rest = ''signed by consumer''\<rparr>"

definition er_ab :: enqueuedRequest where
  "er_ab =
     \<lparr>er_errChan = 0, er_r = [CHR 0xAB], er_em = em_42, er_providerID = providerP,
      er_sessionID = ''s1''\<rparr>"

definition deps_urlgone :: Deps where
  "deps_urlgone =
     deps_ok\<lparr>GetHermesURL :=
               (\<lambda>h a. if list_ex (\<lambda>ev. case ev of EvDecrypt x y \<Rightarrow> True | _ \<Rightarrow> False) h
                      then Inl (ErrorString ''unknown hermes'') else Inr ''https://hermes''),
             caller_RequestPromise :=
               (\<lambda>h u rq. (\<lparr>p_ChainID = 0, p_rest = []\<rparr>,
                           Some (HermesErrorResponse ErrNeedsRRecovery (rp_RRecoveryData rq))))\<rparr>"

text \<open>
  A hermes whose first \<open>RevealR\<close> demands a recovery, with the payload of \<open>er_ab\<close>,
  whose second \<open>RevealR\<close> times out and whose later ones succeed.
\<close>

definition deps_flaky :: Deps where
  "deps_flaky =
     deps_ok\<lparr>caller_RevealR :=
               (\<lambda>h u r p a.
                  case length (filter is_RevealR h) of
                    0 \<Rightarrow> Some (HermesErrorResponse ErrNeedsRRecovery
                                 (hex_EncodeToString (rev ''{r:ab,agreement_id:42}'')))
                  | Suc 0 \<Rightarrow> Some (ErrorString ''timeout'')
                  | Suc (Suc n) \<Rightarrow> None)\<rparr>"

definition deps_overwrite :: Deps where
  "deps_overwrite =
     deps_ok\<lparr>Store := (\<lambda>h p. Some (Wrapf ''promise exists'' ErrAttemptToOverwrite))\<rparr>"

definition deps_diskfull :: Deps where
  "deps_diskfull = deps_ok\<lparr>Store := (\<lambda>h p. Some (ErrorString ''disk full''))\<rparr>"

section \<open>Session manager: properties\<close>

subsection \<open>A mismatched proposal\<close>

text \<open>
  C7. When \<open>Start\<close> has the lock and the proposal id differs from the current
  proposal's, it returns the empty session with \<open>ErrorInvalidProposal\<close> and leaves the
  manager as it was: the store is unchanged, no \<open>done\<close> channel is made, no goroutine
  is started, the payment engine factory is not called.
\<close>

theorem Start_invalid_proposal:
  assumes "\<not> creationLock m" and "proposalID \<noteq> ID (currentProposal m)"
  shows "Start env consumerID accountantID proposalID m =
           Returns (empty_Session, Some ErrorInvalidProposal) m"
  using assms by (simp add: Start_def)

theorem Start_invalid_proposal_witness:
  "\<not> creationLock manager0 \<and> 8 \<noteq> ID (currentProposal manager0) \<and>
   Start env_paid consumerC ''0xacc'' 8 manager0 =
     Returns (empty_Session, Some ErrorInvalidProposal) manager0"
  using Start_invalid_proposal [of manager0 8 env_paid consumerC "''0xacc''"]
  by (simp add: manager0_def NewSessionManager_def proposal7_def)

subsection \<open>The first invoice is not paid\<close>

text \<open>
  Whenever \<open>WaitFirstInvoice\<close> answers an error, \<open>Start\<close> calls \<open>destroySession\<close> while
  it holds \<open>creationLock\<close>, and parks there.
\<close>

lemma Start_first_invoice_error_blocks:
  assumes "\<not> creationLock m" and "proposalID = ID (currentProposal m)"
    and "NewSession env = Inr new" and "paymentEngineFactory env = None"
    and "WaitFirstInvoice env = Some err"
  shows "\<exists>m'. Start env consumerID accountantID proposalID m = Blocks m'"
  using assms
  by (simp add: Start_def Let_def destroySession_def make_chan_def clearStaleSession_def
      spawn_def record_call_def split: option.splits prod.splits)

text \<open>
  C6. At the concrete admission with a timed-out first invoice, \<open>Start\<close> does not
  return: it is parked with the lock held, the session's \<open>done\<close> channel (address 0)
  still open and the engine not stopped.
\<close>

theorem Start_first_invoice_unpaid_blocks:
  "(case Start env_unpaid consumerC ''0xacc'' 7 manager0 of
      Blocks m' \<Rightarrow> creationLock m' \<and> doneChans m' 0 = Open \<and> EvEngineStop ''s2'' \<notin> set (calls m')
    | Returns v m' \<Rightarrow> False
    | Panics m' \<Rightarrow> False)"
  by (simp add: Start_def Let_def destroySession_def make_chan_def clearStaleSession_def spawn_def
      record_call_def manager0_def NewSessionManager_def proposal7_def env_unpaid_def
      storage_FindBy_def fresh2_def empty_Session_def)

subsection \<open>A second destroySession\<close>

text \<open>After \<open>destroySession\<close> has returned for a session, another one for it panics.\<close>

lemma destroySession_again_panics:
  "destroySession session m = Returns u m' \<Longrightarrow> destroySession session m' = Panics m'"
  by (auto simp: destroySession_def close_chan_def Let_def storage_Remove_def
      split: if_splits option.splits chan_state.splits)

text \<open>
  C1. Session \<open>s1\<close> is in the store. \<open>Start\<close> for the same consumer admits a new session
  and starts the goroutine that evicts \<open>s1\<close>; the consumer's \<open>Destroy\<close> of \<open>s1\<close> runs first
  and closes its \<open>done\<close>; when the eviction goroutine then runs \<open>destroySession\<close>, the
  second \<open>close\<close> panics.
\<close>

theorem destroySession_second_close_panics:
  "(case Start env_paid consumerC ''0xacc'' 7 manager1 of
      Returns v m2 \<Rightarrow>
        GoDestroySession session1 \<in> set (goroutines m2) \<and>
        (case Destroy consumerC ''s1'' m2 of
           Returns e m3 \<Rightarrow>
             e = None \<and> doneChans m3 0 = Closed \<and>
             (case destroySession session1 m3 of
                Panics m4 \<Rightarrow> True
              | Returns u m4 \<Rightarrow> False
              | Blocks m4 \<Rightarrow> False)
         | Panics m3 \<Rightarrow> False
         | Blocks m3 \<Rightarrow> False)
    | Panics m2 \<Rightarrow> False
    | Blocks m2 \<Rightarrow> False)"
  by (simp add: Start_def Let_def destroySession_def make_chan_def clearStaleSession_def spawn_def
      record_call_def manager1_def NewSessionManager_def proposal7_def env_paid_def
      storage_FindBy_def storage_Find_def storage_Add_def storage_Remove_def Destroy_def
      close_chan_def session1_def consumerC_def fresh2_def empty_Session_def)

subsection \<open>The keep-alive counter\<close>








section \<open>Hermes promise handler: properties\<close>

subsection \<open>Channels and calls through the handler's functions\<close>

lemma chanOps_called [simp]: "chanOps (called e s) = chanOps s"
  by (simp add: called_def)

lemma history_called [simp]: "history (called e s) = history s @ [e]"
  by (simp add: called_def)

lemma chanOps_updateFee [simp]: "chanOps (updateFee deps s) = chanOps s"
  by (simp add: updateFee_def Let_def split: sum.splits)

lemma chanOps_chan_send [simp]:
  "chanOps (chan_send c e s) = (chanOps s)(c := chanOps s c @ [ChanSend e])"
  by (simp add: chan_send_def)

lemma chanOps_getHermesCaller:
  "getHermesCaller deps h s = (r, s') \<Longrightarrow> chanOps s' = chanOps s"
  by (auto simp: getHermesCaller_def Let_def split: sum.splits)

lemma chanOps_recoverR:
  "recoverR deps aer p h s = (r, s') \<Longrightarrow> chanOps s' = chanOps s"
  by (auto simp: recoverR_def Let_def split: sum.splits prod.splits option.splits
      dest!: chanOps_getHermesCaller)

lemma chanOps_handleHermesError:
  "handleHermesError deps err p h s = (r, s') \<Longrightarrow> chanOps s' = chanOps s"
  by (auto simp: handleHermesError_def split: option.splits if_splits prod.splits
      dest!: chanOps_recoverR)

lemma chanOps_revealR:
  "revealR deps hp s = (r, s') \<Longrightarrow> chanOps s' = chanOps s"
  by (auto simp: revealR_def Let_def split: option.splits if_splits prod.splits sum.splits
      dest!: chanOps_getHermesCaller chanOps_handleHermesError)

subsection \<open>Hex text\<close>

lemma hextable_digits: "list_all (\<lambda>k. fromHexChar (hextable ! k) = Some k) [0..<16]"
  by code_simp

lemma fromHexChar_hextable: "k < 16 \<Longrightarrow> fromHexChar (hextable ! k) = Some k"
  using hextable_digits by (simp add: list_all_iff)

lemma of_char_lt_256: "(of_char c :: nat) < 256"
  by (cases c) simp

text \<open>Decoding undoes encoding, for every byte string.\<close>

lemma hex_DecodeString_EncodeToString: "hex_DecodeString (hex_EncodeToString bs) = Inr bs"
proof (induction bs)
  case Nil
  then show ?case by simp
next
  case (Cons b bs)
  let ?n = "of_char b :: nat"
  have hi: "?n div 16 < 16" using of_char_lt_256 [of b] by arith
  have lo: "?n mod 16 < 16" by simp
  have "char_of (?n div 16 * 16 + ?n mod 16) = b" by simp
  then show ?case
    using Cons.IH by (simp add: fromHexChar_hextable [OF hi] fromHexChar_hextable [OF lo])
qed

subsection \<open>The error channel of a request\<close>

lemma sends_one_called: "sends_one c (called ev s) t = sends_one c s t"
  by (simp add: sends_one_def)

lemma chanOps_close_send:
  "chanOps (chan_close c (chan_send c e t)) = (chanOps t)(c := chanOps t c @ [ChanSend e, ChanClose])"
  by (simp add: chan_close_def)

text \<open>For a promise not yet revealed, step 9 succeeds exactly when \<open>revealR\<close> returns nil.\<close>

lemma reveal_step_succeeds_revealR:
  "\<not> hp_Revealed ap \<Longrightarrow>
   reveal_step_succeeds deps er hermesID promise ap s =
     (fst (revealR deps ap
             (called (EvPublishTokensEarned (er_providerID er) (er_sessionID er)
                        (em_AgreementTotal (er_em er)))
                (called (EvPublishHermesPromise promise hermesID (er_providerID er)) s))) = None)"
  by (auto simp: reveal_step_succeeds_def revealR_def Let_def
      split: prod.splits sum.splits option.splits)

lemma reveal_stage_shape:
  "chanOps (requestPromise_reveal deps er hermesID promise ap s) = chanOps s \<or>
   sends_one (er_errChan er) s (requestPromise_reveal deps er hermesID promise ap s)"
  by (auto simp: requestPromise_reveal_def sends_one_def Let_def
      split: prod.splits option.splits
      dest!: chanOps_revealR chanOps_handleHermesError)

lemma reveal_stage_success:
  assumes "\<not> hp_Revealed ap" and "reveal_step_succeeds deps er hermesID promise ap s"
  shows "chanOps (requestPromise_reveal deps er hermesID promise ap s) = chanOps s"
proof -
  let ?s2 = "called (EvPublishTokensEarned (er_providerID er) (er_sessionID er)
                       (em_AgreementTotal (er_em er)))
               (called (EvPublishHermesPromise promise hermesID (er_providerID er)) s)"
  obtain err s3 where r: "revealR deps ap ?s2 = (err, s3)" by (cases "revealR deps ap ?s2")
  with assms have "err = None" by (simp add: reveal_step_succeeds_revealR)
  with r chanOps_revealR [OF r] show ?thesis
    by (simp add: requestPromise_reveal_def Let_def handleHermesError_def)
qed

lemma store_stage_shape:
  "chanOps (requestPromise_store deps er channelID hermesID promise s) = chanOps s \<or>
   sends_one (er_errChan er) s (requestPromise_store deps er channelID hermesID promise s)"
  using reveal_stage_shape [of deps er hermesID promise "unrevealed_promise er channelID hermesID promise"
      "called (EvStore (unrevealed_promise er channelID hermesID promise)) s"]
  by (auto simp: requestPromise_store_def Let_def sends_one_called unrevealed_promise_def
      split: option.splits) (auto simp: sends_one_def)

lemma store_stage_success:
  assumes "store_steps_succeed deps er channelID hermesID promise s"
  shows "chanOps (requestPromise_store deps er channelID hermesID promise s) = chanOps s"
proof -
  let ?ap = "unrevealed_promise er channelID hermesID promise"
  have nr: "\<not> hp_Revealed ?ap" by (simp add: unrevealed_promise_def)
  from assms have st: "(case Store deps (history s) ?ap of
                          None \<Rightarrow> True | Some e \<Rightarrow> errors_Is e ErrAttemptToOverwrite)"
    and rv: "reveal_step_succeeds deps er hermesID promise ?ap (called (EvStore ?ap) s)"
    by (simp_all add: store_steps_succeed_def Let_def)
  have "chanOps (requestPromise_reveal deps er hermesID promise ?ap (called (EvStore ?ap) s)) = chanOps s"
    using reveal_stage_success [OF nr rv] by simp
  with st show ?thesis
    by (auto simp: requestPromise_store_def Let_def unrevealed_promise_def split: option.splits)
qed

lemma store_stage_closed_shape:
  fixes s s5 :: HermesPromiseHandler
  assumes eq: "chanOps s5 = chanOps s"
  shows "chanOps (chan_close (er_errChan er) (requestPromise_store deps er channelID hermesID promise s5)) =
           (chanOps s)(er_errChan er := chanOps s (er_errChan er) @ [ChanClose]) \<or>
         (\<exists>e. chanOps (chan_close (er_errChan er) (requestPromise_store deps er channelID hermesID promise s5)) =
           (chanOps s)(er_errChan er := chanOps s (er_errChan er) @ [ChanSend e, ChanClose]))"
  using store_stage_shape [of deps er channelID hermesID promise s5] eq
  by (auto simp: sends_one_def chan_close_def)

text \<open>
  Whatever happens, processing a request ends with its error channel closed, after at
  most one error was sent on it, and touches no other channel.
\<close>

lemma requestPromise_closes_errChan:
  "chanOps (requestPromise deps er s) =
     (chanOps s)(er_errChan er := chanOps s (er_errChan er) @ [ChanClose]) \<or>
   (\<exists>e. chanOps (requestPromise deps er s) =
     (chanOps s)(er_errChan er := chanOps s (er_errChan er) @ [ChanSend e, ChanClose]))"
  unfolding requestPromise_def Let_def
  by (auto simp: chanOps_close_send split: sum.splits prod.splits option.splits
      dest!: chanOps_getHermesCaller chanOps_handleHermesError intro!: store_stage_closed_shape)

text \<open>When every step succeeds, no error is sent.\<close>

lemma store_stage_closed_success:
  fixes s s5 :: HermesPromiseHandler
  assumes "store_steps_succeed deps er channelID hermesID promise s5" and "chanOps s5 = chanOps s"
  shows "chanOps (chan_close (er_errChan er) (requestPromise_store deps er channelID hermesID promise s5)) =
           (chanOps s)(er_errChan er := chanOps s (er_errChan er) @ [ChanClose])"
  using store_stage_success [OF assms(1)] assms(2)
  by (simp add: chan_close_def)

lemma requestPromise_success_closes_disj:
  "\<not> requestPromise_steps_succeed deps er s \<or>
   chanOps (requestPromise deps er s) =
     (chanOps s)(er_errChan er := chanOps s (er_errChan er) @ [ChanClose])"
proof -
  have f: "(if \<not> IsValid deps (history s) (transactorFee s) then updateFee deps s else s) =
           fee_refreshed deps s"
    by (simp add: fee_refreshed_def)
  have c: "chanOps (fee_refreshed deps s) = chanOps s"
    by (simp add: fee_refreshed_def)
  show ?thesis
    unfolding requestPromise_def requestPromise_steps_succeed_def Let_def f
    by (auto simp: c split: sum.splits prod.splits option.splits
        dest!: chanOps_getHermesCaller chanOps_handleHermesError
        intro: store_stage_closed_success)
qed

lemma requestPromise_success_closes:
  assumes "requestPromise_steps_succeed deps er s"
  shows "chanOps (requestPromise deps er s) =
           (chanOps s)(er_errChan er := chanOps s (er_errChan er) @ [ChanClose])"
  using assms requestPromise_success_closes_disj [of deps er s] by blast

text \<open>\<open>RequestPromise\<close>, when the queue has room, returns a fresh error channel on which
  nothing has happened and puts the request with that channel at the end of the queue.\<close>

lemma RequestPromise_fresh_channel:
  "RequestPromise r em providerID sessionID s = Some (c, s') \<Longrightarrow>
   chanOps s' c = [] \<and>
   queue s' = queue s @ [\<lparr>er_errChan = c, er_r = r, er_em = em, er_providerID = providerID,
                           er_sessionID = sessionID\<rparr>]"
  by (auto simp: RequestPromise_def Let_def split: if_splits)

lemma hex_ab: "hex_EncodeToString [CHR 0xAB] = ''ab''"
  by code_simp

text \<open>With collaborators that all answer well, every step succeeds and the channel is
  closed with no error.\<close>

lemma requestPromise_steps_succeed_ok:
  "requestPromise_steps_succeed deps_ok er_ab NewHermesPromiseHandler"
  by (simp add: requestPromise_steps_succeed_def store_steps_succeed_def reveal_step_succeeds_def
      unrevealed_promise_def fee_refreshed_def updateFee_def getHermesCaller_def
      handleHermesError_def deps_ok_def er_ab_def em_42_def details_ab_def providerP_def
      NewHermesPromiseHandler_def called_def hex_ab Let_def del: hex_EncodeToString.simps)

lemma requestPromise_ok_closes:
  "chanOps (requestPromise deps_ok er_ab NewHermesPromiseHandler) 0 = [ChanClose]"
  using requestPromise_success_closes [OF requestPromise_steps_succeed_ok]
  by (simp add: er_ab_def NewHermesPromiseHandler_def)

text \<open>
  C2. The request of scenario 5, with a hermes whose \<open>RevealR\<close> first demands a
  recovery and then times out once. Step 9 fails: the recovery inside \<open>revealR\<close> fails,
  \<open>revealR\<close> returns an error and the promise is never stored with \<open>Revealed = true\<close>.
  But the error \<open>revealR\<close> returns still matches \<open>ErrNeedsRRecovery\<close>, so
  \<open>requestPromise\<close> runs the recovery a second time, which succeeds: the error channel
  is closed and no error was sent on it.
\<close>

theorem requestPromise_closes_without_error_after_failed_reveal:
  "chanOps (requestPromise deps_flaky er_ab NewHermesPromiseHandler) 0 = [ChanClose] \<and>
   \<not> requestPromise_steps_succeed deps_flaky er_ab NewHermesPromiseHandler \<and>
   filter is_revealed_Store (history (requestPromise deps_flaky er_ab NewHermesPromiseHandler)) = [] \<and>
   length (filter is_RevealR (history (requestPromise deps_flaky er_ab NewHermesPromiseHandler))) = 3"
  by (simp add: requestPromise_def requestPromise_store_def requestPromise_reveal_def revealR_def
      requestPromise_steps_succeed_def store_steps_succeed_def reveal_step_succeeds_def
      unrevealed_promise_def fee_refreshed_def
      updateFee_def getHermesCaller_def handleHermesError_def
      recoverR_def Data_def hex_DecodeString_EncodeToString deps_flaky_def deps_ok_def er_ab_def
      em_42_def details_ab_def providerP_def NewHermesPromiseHandler_def called_def chan_send_def
      chan_close_def hex_ab Let_def del: hex_EncodeToString.simps)

subsection \<open>A promise already revealed\<close>

text \<open>
  C10. For a promise whose \<open>Revealed\<close> is true, \<open>revealR\<close> returns nil and leaves the
  handler as it was: no hermes caller is resolved, \<open>RevealR\<close> is not called, nothing is
  stored.
\<close>

theorem revealR_already_revealed:
  "hp_Revealed hermesPromise \<Longrightarrow> revealR deps hermesPromise s = (None, s)"
  by (simp add: revealR_def)

theorem revealR_already_revealed_witness:
  "hp_Revealed (promise_ab\<lparr>hp_Revealed := True\<rparr>) \<and>
   revealR deps_ok (promise_ab\<lparr>hp_Revealed := True\<rparr>) NewHermesPromiseHandler =
     (None, NewHermesPromiseHandler)"
  using revealR_already_revealed [of "promise_ab\<lparr>hp_Revealed := True\<rparr>" deps_ok NewHermesPromiseHandler]
  by simp

subsection \<open>The error handling policy\<close>

lemma errors_Is_sentinels_exclusive:
  "errors_Is e ErrNeedsRRecovery \<Longrightarrow> \<not> errors_Is e ErrHermesNoPreviousPromise"
  by (induction e) auto

text \<open>
  C3, as stated, fails at the bare sentinel \<open>ErrNeedsRRecovery\<close>, which carries no
  structured hermes error: the result is the cast error although every step of a recovery
  would succeed with these collaborators, and no call was made.
\<close>

theorem handleHermesError_bare_sentinel:
  "handleHermesError deps_ok (Some ErrNeedsRRecovery) providerP ''0xe0'' NewHermesPromiseHandler =
     (Some (ErrorString ''could not cast errNeedsRecovery to hermesError''), NewHermesPromiseHandler)"
  by (simp add: handleHermesError_def)

text \<open>
  C3, amended. \<open>handleHermesError\<close> maps nil to nil and an error matching
  \<open>ErrHermesNoPreviousPromise\<close> to nil, both without a call; for an error matching
  \<open>ErrNeedsRRecovery\<close> that carries a structured hermes error it does what \<open>recoverR\<close>
  does with that error and returns what \<open>recoverR\<close> returns (nil exactly when the
  recovery succeeds); for one that carries none it returns the cast error and makes no
  call; every other error is returned as it is.
\<close>

theorem handleHermesError_cases:
  "handleHermesError deps None providerID hermesID s = (None, s) \<and>
   (errors_Is e ErrHermesNoPreviousPromise \<longrightarrow>
      handleHermesError deps (Some e) providerID hermesID s = (None, s)) \<and>
   (errors_Is e ErrNeedsRRecovery \<and> errors_As e = Some aer \<longrightarrow>
      handleHermesError deps (Some e) providerID hermesID s = recoverR deps aer providerID hermesID s) \<and>
   (errors_Is e ErrNeedsRRecovery \<and> errors_As e = None \<longrightarrow>
      handleHermesError deps (Some e) providerID hermesID s =
        (Some (ErrorString ''could not cast errNeedsRecovery to hermesError''), s)) \<and>
   (\<not> errors_Is e ErrNeedsRRecovery \<and> \<not> errors_Is e ErrHermesNoPreviousPromise \<longrightarrow>
      handleHermesError deps (Some e) providerID hermesID s = (Some e, s))"
  using errors_Is_sentinels_exclusive [of e]
  by (auto simp: handleHermesError_def split: prod.splits option.splits)

theorem handleHermesError_cases_witness:
  "handleHermesError deps_ok (Some (Wrapf ''hermes'' ErrHermesNoPreviousPromise)) providerP ''0xe0''
     NewHermesPromiseHandler = (None, NewHermesPromiseHandler) \<and>
   handleHermesError deps_ok (Some (Wrapf ''hermes'' (HermesErrorResponse ErrNeedsRRecovery ''zz'')))
     providerP ''0xe0'' NewHermesPromiseHandler =
     recoverR deps_ok (ErrNeedsRRecovery, ''zz'') providerP ''0xe0'' NewHermesPromiseHandler \<and>
   handleHermesError deps_ok (Some (Wrapf ''hermes'' ErrNeedsRRecovery)) providerP ''0xe0''
     NewHermesPromiseHandler =
     (Some (ErrorString ''could not cast errNeedsRecovery to hermesError''), NewHermesPromiseHandler) \<and>
   handleHermesError deps_ok (Some (ErrorString ''connection refused'')) providerP ''0xe0''
     NewHermesPromiseHandler = (Some (ErrorString ''connection refused''), NewHermesPromiseHandler)"
  using
    handleHermesError_cases [of deps_ok providerP "''0xe0''" NewHermesPromiseHandler
      "Wrapf ''hermes'' ErrHermesNoPreviousPromise" "(ErrNeedsRRecovery, ''zz'')"]
    handleHermesError_cases [of deps_ok providerP "''0xe0''" NewHermesPromiseHandler
      "Wrapf ''hermes'' (HermesErrorResponse ErrNeedsRRecovery ''zz'')" "(ErrNeedsRRecovery, ''zz'')"]
    handleHermesError_cases [of deps_ok providerP "''0xe0''" NewHermesPromiseHandler
      "Wrapf ''hermes'' ErrNeedsRRecovery" "(ErrNeedsRRecovery, ''zz'')"]
    handleHermesError_cases [of deps_ok providerP "''0xe0''" NewHermesPromiseHandler
      "ErrorString ''connection refused''" "(ErrNeedsRRecovery, ''zz'')"]
  by simp

subsection \<open>The error that revealR returns\<close>

text \<open>
  When the handled error is not nil, \<open>revealR\<close> returns the error of \<open>RevealR\<close>
  wrapped, whatever the handled error is.
\<close>

lemma revealR_returns_raw_error:
  assumes "\<not> hp_Revealed hp" and "getHermesCaller deps (hp_HermesID hp) s = (Inr hermesCaller, s1)"
    and "caller_RevealR deps (history s1) hermesCaller (hp_R hp) (Address (hp_Identity hp))
           (hp_AgreementID hp) = Some err"
    and "handleHermesError deps (Some err) (hp_Identity hp) (hp_HermesID hp)
           (called (EvRevealR hermesCaller (hp_R hp) (Address (hp_Identity hp)) (hp_AgreementID hp)) s1) =
         (Some handledErr, s3)"
  shows "revealR deps hp s = (Some (Wrapf ''could not reveal R'' err), s3)"
  using assms by (simp add: revealR_def Let_def)

text \<open>
  C9. The hermes answers \<open>RevealR\<close> with \<open>ErrNeedsRRecovery\<close> and a payload that is no
  hex text. The handled error is the failure of the recovery, to decode the payload;
  \<open>revealR\<close> returns the hermes error wrapped, and the handled error is nowhere in its
  chain.
\<close>

theorem revealR_wraps_raw_error:
  "(case revealR deps_zz promise_ab NewHermesPromiseHandler of
      (returned, s') \<Rightarrow>
        returned = Some (Wrapf ''could not reveal R'' (HermesErrorResponse ErrNeedsRRecovery ''zz'')) \<and>
        fst (handleHermesError deps_zz (Some (HermesErrorResponse ErrNeedsRRecovery ''zz''))
               providerP ''0xe0'' NewHermesPromiseHandler) =
          Some (Wrapf ''could not decode R recovery details'' (hex_InvalidByteError (CHR ''z''))) \<and>
        \<not> errors_Is (Wrapf ''could not reveal R'' (HermesErrorResponse ErrNeedsRRecovery ''zz''))
             (Wrapf ''could not decode R recovery details'' (hex_InvalidByteError (CHR ''z''))))"
  by (simp add: revealR_def getHermesCaller_def handleHermesError_def recoverR_def deps_zz_def
      deps_ok_def promise_ab_def called_def Data_def fromHexChar_def Let_def providerP_def
      NewHermesPromiseHandler_def)

subsection \<open>Storage errors\<close>

text \<open>
  C5. Where \<open>requestPromise\<close> stores the promise with \<open>Revealed = false\<close>: a storage
  error matching \<open>ErrAttemptToOverwrite\<close> leads to the same continuation as no error,
  the events and the reveal; any other storage error is sent on the error channel, wrapped,
  and nothing follows the store. Where \<open>revealR\<close>, after a reveal that the hermes
  accepted, stores the promise with \<open>Revealed = true\<close>: a storage error matching
  \<open>ErrAttemptToOverwrite\<close> gives nil like no error; any other is returned, wrapped.
\<close>

theorem store_overwrite_swallowed:
  "(Store deps (history s) (unrevealed_promise er channelID hermesID promise) = None \<or>
    Store deps (history s) (unrevealed_promise er channelID hermesID promise) = Some e \<and>
      errors_Is e ErrAttemptToOverwrite \<longrightarrow>
      requestPromise_store deps er channelID hermesID promise s =
        requestPromise_reveal deps er hermesID promise (unrevealed_promise er channelID hermesID promise)
          (called (EvStore (unrevealed_promise er channelID hermesID promise)) s)) \<and>
   (Store deps (history s) (unrevealed_promise er channelID hermesID promise) = Some e \<and>
      \<not> errors_Is e ErrAttemptToOverwrite \<longrightarrow>
      requestPromise_store deps er channelID hermesID promise s =
        chan_send (er_errChan er) (Wrapf ''could not store hermes promise'' e)
          (called (EvStore (unrevealed_promise er channelID hermesID promise)) s)) \<and>
   (\<not> hp_Revealed hp \<and> getHermesCaller deps (hp_HermesID hp) t = (Inr hermesCaller, t1) \<and>
    handleHermesError deps
      (caller_RevealR deps (history t1) hermesCaller (hp_R hp) (Address (hp_Identity hp)) (hp_AgreementID hp))
      (hp_Identity hp) (hp_HermesID hp)
      (called (EvRevealR hermesCaller (hp_R hp) (Address (hp_Identity hp)) (hp_AgreementID hp)) t1) =
      (None, t3) \<longrightarrow>
      (Store deps (history t3) (hp\<lparr>hp_Revealed := True\<rparr>) = None \<or>
       Store deps (history t3) (hp\<lparr>hp_Revealed := True\<rparr>) = Some e' \<and>
         errors_Is e' ErrAttemptToOverwrite \<longrightarrow>
         revealR deps hp t = (None, called (EvStore (hp\<lparr>hp_Revealed := True\<rparr>)) t3)) \<and>
      (Store deps (history t3) (hp\<lparr>hp_Revealed := True\<rparr>) = Some e' \<and>
         \<not> errors_Is e' ErrAttemptToOverwrite \<longrightarrow>
         revealR deps hp t =
           (Some (Wrapf ''could not store hermes promise'' e'),
            called (EvStore (hp\<lparr>hp_Revealed := True\<rparr>)) t3)))"
  by (auto simp: requestPromise_store_def unrevealed_promise_def revealR_def Let_def)

theorem store_overwrite_swallowed_witness:
  "requestPromise_store deps_overwrite er_ab ''0xa00xe0'' ''0xe0'' (hp_Promise promise_ab)
     NewHermesPromiseHandler =
     requestPromise_reveal deps_overwrite er_ab ''0xe0'' (hp_Promise promise_ab)
       (unrevealed_promise er_ab ''0xa00xe0'' ''0xe0'' (hp_Promise promise_ab))
       (called (EvStore (unrevealed_promise er_ab ''0xa00xe0'' ''0xe0'' (hp_Promise promise_ab)))
          NewHermesPromiseHandler) \<and>
   requestPromise_store deps_diskfull er_ab ''0xa00xe0'' ''0xe0'' (hp_Promise promise_ab)
     NewHermesPromiseHandler =
     chan_send 0 (Wrapf ''could not store hermes promise'' (ErrorString ''disk full''))
       (called (EvStore (unrevealed_promise er_ab ''0xa00xe0'' ''0xe0'' (hp_Promise promise_ab)))
          NewHermesPromiseHandler) \<and>
   fst (revealR deps_overwrite promise_ab NewHermesPromiseHandler) = None \<and>
   fst (revealR deps_diskfull promise_ab NewHermesPromiseHandler) =
     Some (Wrapf ''could not store hermes promise'' (ErrorString ''disk full''))"
proof -
  let ?ap = "unrevealed_promise er_ab ''0xa00xe0'' ''0xe0'' (hp_Promise promise_ab)"
  let ?t1 = "called (EvHermesCallerFactory ''https://hermes'')
               (called (EvGetHermesURL ''0xe0'') NewHermesPromiseHandler)"
  let ?t3 = "called (EvRevealR ''https://hermes'' ''ab'' ''0xa0'' 42) ?t1"
  let ?ow = "Wrapf ''promise exists'' ErrAttemptToOverwrite"
  let ?df = "ErrorString ''disk full''"
  have so: "Store deps_overwrite h p = Some ?ow" "errors_Is ?ow ErrAttemptToOverwrite"
    and sd: "Store deps_diskfull h p = Some ?df" "\<not> errors_Is ?df ErrAttemptToOverwrite" for h p
    by (simp_all add: deps_overwrite_def deps_diskfull_def)
  have c: "er_errChan er_ab = 0" by (simp add: er_ab_def)
  have reach: "\<not> hp_Revealed promise_ab"
    "hp_HermesID promise_ab = ''0xe0''" "hp_R promise_ab = ''ab''"
    "Address (hp_Identity promise_ab) = ''0xa0''" "hp_AgreementID promise_ab = 42"
    by (simp_all add: promise_ab_def providerP_def)
  have g: "getHermesCaller deps_overwrite ''0xe0'' NewHermesPromiseHandler = (Inr ''https://hermes'', ?t1)"
    "getHermesCaller deps_diskfull ''0xe0'' NewHermesPromiseHandler = (Inr ''https://hermes'', ?t1)"
    by (simp_all add: getHermesCaller_def deps_overwrite_def deps_diskfull_def deps_ok_def)
  have h: "handleHermesError deps_overwrite
             (caller_RevealR deps_overwrite (history ?t1) ''https://hermes'' ''ab'' ''0xa0'' 42)
             (hp_Identity promise_ab) ''0xe0'' ?t3 = (None, ?t3)"
    "handleHermesError deps_diskfull
             (caller_RevealR deps_diskfull (history ?t1) ''https://hermes'' ''ab'' ''0xa0'' 42)
             (hp_Identity promise_ab) ''0xe0'' ?t3 = (None, ?t3)"
    by (simp_all add: handleHermesError_def deps_overwrite_def deps_diskfull_def deps_ok_def)
  have a1: "requestPromise_store deps_overwrite er_ab ''0xa00xe0'' ''0xe0'' (hp_Promise promise_ab)
              NewHermesPromiseHandler =
            requestPromise_reveal deps_overwrite er_ab ''0xe0'' (hp_Promise promise_ab) ?ap
              (called (EvStore ?ap) NewHermesPromiseHandler)"
    using store_overwrite_swallowed [of deps_overwrite NewHermesPromiseHandler er_ab "''0xa00xe0''"
        "''0xe0''" "hp_Promise promise_ab" ?ow promise_ab NewHermesPromiseHandler "''https://hermes''"
        ?t1 ?t3 ?ow] so
    by blast
  have a2: "requestPromise_store deps_diskfull er_ab ''0xa00xe0'' ''0xe0'' (hp_Promise promise_ab)
              NewHermesPromiseHandler =
            chan_send 0 (Wrapf ''could not store hermes promise'' ?df)
              (called (EvStore ?ap) NewHermesPromiseHandler)"
    using store_overwrite_swallowed [of deps_diskfull NewHermesPromiseHandler er_ab "''0xa00xe0''"
        "''0xe0''" "hp_Promise promise_ab" ?df promise_ab NewHermesPromiseHandler "''https://hermes''"
        ?t1 ?t3 ?df] sd c
    by simp
  have a3: "revealR deps_overwrite promise_ab NewHermesPromiseHandler =
              (None, called (EvStore (promise_ab\<lparr>hp_Revealed := True\<rparr>)) ?t3)"
    using store_overwrite_swallowed [of deps_overwrite NewHermesPromiseHandler er_ab "''0xa00xe0''"
        "''0xe0''" "hp_Promise promise_ab" ?ow promise_ab NewHermesPromiseHandler "''https://hermes''"
        ?t1 ?t3 ?ow] so reach g(1) h(1)
    by simp
  have a4: "revealR deps_diskfull promise_ab NewHermesPromiseHandler =
              (Some (Wrapf ''could not store hermes promise'' ?df),
               called (EvStore (promise_ab\<lparr>hp_Revealed := True\<rparr>)) ?t3)"
    using store_overwrite_swallowed [of deps_diskfull NewHermesPromiseHandler er_ab "''0xa00xe0''"
        "''0xe0''" "hp_Promise promise_ab" ?df promise_ab NewHermesPromiseHandler "''https://hermes''"
        ?t1 ?t3 ?df] sd reach g(2) h(2)
    by simp
  from a1 a2 a3 a4 show ?thesis by simp
qed

subsection \<open>The recovery payload\<close>

lemma extends_history_refl: "extends_history s s"
  by (simp add: extends_history_def)

lemma extends_history_trans:
  "extends_history s t \<Longrightarrow> extends_history t u \<Longrightarrow> extends_history s u"
  by (auto simp: extends_history_def)

lemma extends_history_called: "extends_history s (called e s)"
  by (simp add: extends_history_def)

lemma extends_history_called2: "extends_history s t \<Longrightarrow> extends_history s (called e t)"
  by (auto simp: extends_history_def)

lemma extends_history_from_called: "extends_history (called e s) t \<Longrightarrow> extends_history s t"
  by (auto simp: extends_history_def)

lemma extends_history_chan_send [simp]: "extends_history s (chan_send c e t) = extends_history s t"
  by (simp add: extends_history_def chan_send_def)

lemma extends_history_chan_close [simp]: "extends_history s (chan_close c t) = extends_history s t"
  by (simp add: extends_history_def chan_close_def)

lemma extends_getHermesCaller:
  "getHermesCaller deps h s = (r, s') \<Longrightarrow> extends_history s s'"
  by (auto simp: getHermesCaller_def Let_def extends_history_def split: sum.splits)

lemma extends_recoverR:
  "recoverR deps aer p h s = (r, s') \<Longrightarrow> extends_history s s'"
  by (auto simp: recoverR_def Let_def split: sum.splits prod.splits option.splits
      dest!: extends_getHermesCaller
      intro: extends_history_refl extends_history_called extends_history_called2
        extends_history_from_called)

lemma extends_handleHermesError:
  "handleHermesError deps err p h s = (r, s') \<Longrightarrow> extends_history s s'"
  by (auto simp: handleHermesError_def split: option.splits if_splits prod.splits
      dest!: extends_recoverR intro: extends_history_refl)

lemma extends_revealR:
  "revealR deps hp s = (r, s') \<Longrightarrow> extends_history s s'"
  by (auto simp: revealR_def Let_def split: option.splits if_splits prod.splits sum.splits
      dest!: extends_getHermesCaller extends_handleHermesError
      intro: extends_history_refl extends_history_called2 extends_history_from_called
        extends_history_trans)

lemma extends_reveal_stage:
  "extends_history s (requestPromise_reveal deps er hermesID promise ap s)"
proof -
  let ?s2 = "called (EvPublishTokensEarned (er_providerID er) (er_sessionID er)
                       (em_AgreementTotal (er_em er)))
               (called (EvPublishHermesPromise promise hermesID (er_providerID er)) s)"
  obtain err s3 where r: "revealR deps ap ?s2 = (err, s3)" by (cases "revealR deps ap ?s2")
  obtain e s4 where h: "handleHermesError deps err (er_providerID er) hermesID s3 = (e, s4)"
    by (cases "handleHermesError deps err (er_providerID er) hermesID s3")
  have "extends_history s ?s2"
    by (intro extends_history_called2 extends_history_called)
  with extends_revealR [OF r] extends_handleHermesError [OF h]
  have "extends_history s s4" by (blast intro: extends_history_trans)
  with r h show ?thesis
    by (simp add: requestPromise_reveal_def Let_def split: option.splits)
qed

lemma extends_store_stage:
  "extends_history s (requestPromise_store deps er channelID hermesID promise s)"
  using extends_reveal_stage [of "called (EvStore (unrevealed_promise er channelID hermesID promise)) s"
      deps er hermesID promise "unrevealed_promise er channelID hermesID promise"]
  by (auto simp: requestPromise_store_def Let_def unrevealed_promise_def
      split: option.splits intro: extends_history_called extends_history_from_called)

lemma transactorFee_called [simp]: "transactorFee (called e s) = transactorFee s"
  by (simp add: called_def)

lemma requestPromise_reaches_hermes:
  assumes "GenerateProviderChannelID deps (Address (er_providerID er))
             (Hex deps (HexToAddress deps (em_HermesID (er_em er)))) = Inr channelID"
    and "json_Marshal deps \<lparr>rd_R = hex_EncodeToString (er_r er),
                              rd_AgreementID = em_AgreementID (er_em er)\<rparr> = Inr plain"
    and "Encrypt deps (history (fee_refreshed deps s)) (ToCommonAddress deps (er_providerID er)) plain =
           Inr encrypted"
    and "getHermesCaller deps (HexToAddress deps (em_HermesID (er_em er)))
           (called (EvEncrypt (ToCommonAddress deps (er_providerID er)) plain) (fee_refreshed deps s)) =
           (Inr hermesCaller, s3)"
    and "caller_RequestPromise deps (history s3) hermesCaller
           \<lparr>rp_ExchangeMessage = er_em er,
            rp_TransactorFee = Fee (transactorFee (fee_refreshed deps s)),
            rp_RRecoveryData = hex_EncodeToString encrypted\<rparr> = (promise, err)"
    and "handleHermesError deps err (er_providerID er) (HexToAddress deps (em_HermesID (er_em er)))
           (called (EvRequestPromise hermesCaller
              \<lparr>rp_ExchangeMessage = er_em er,
               rp_TransactorFee = Fee (transactorFee (fee_refreshed deps s)),
               rp_RRecoveryData = hex_EncodeToString encrypted\<rparr>) s3) = (e, s5)"
  shows "requestPromise deps er s =
           chan_close (er_errChan er)
             (case e of
                Some x \<Rightarrow> chan_send (er_errChan er) (Wrapf ''hermes request promise error'' x) s5
              | None \<Rightarrow>
                  requestPromise_store deps er channelID (HexToAddress deps (em_HermesID (er_em er)))
                    promise s5)"
proof -
  have f: "(if \<not> IsValid deps (history s) (transactorFee s) then updateFee deps s else s) =
           fee_refreshed deps s"
    by (simp add: fee_refreshed_def)
  show ?thesis
    unfolding requestPromise_def Let_def f
    using assms by (simp split: option.splits)
qed

lemma requestPromise_sends_payload:
  assumes ch: "GenerateProviderChannelID deps (Address (er_providerID er))
                 (Hex deps (HexToAddress deps (em_HermesID (er_em er)))) = Inr channelID"
    and ma: "json_Marshal deps \<lparr>rd_R = hex_EncodeToString (er_r er),
                                 rd_AgreementID = em_AgreementID (er_em er)\<rparr> = Inr plain"
    and en: "Encrypt deps (history (fee_refreshed deps s)) (ToCommonAddress deps (er_providerID er)) plain =
               Inr encrypted"
    and ca: "getHermesCaller deps (HexToAddress deps (em_HermesID (er_em er)))
               (called (EvEncrypt (ToCommonAddress deps (er_providerID er)) plain) (fee_refreshed deps s)) =
               (Inr hermesCaller, s3)"
  shows "\<exists>t. history (requestPromise deps er s) =
           history s3 @
           EvRequestPromise hermesCaller
             \<lparr>rp_ExchangeMessage = er_em er,
              rp_TransactorFee = Fee (transactorFee (fee_refreshed deps s)),
              rp_RRecoveryData = hex_EncodeToString encrypted\<rparr> # t"
proof -
  let ?hid = "HexToAddress deps (em_HermesID (er_em er))"
  let ?rq = "\<lparr>rp_ExchangeMessage = er_em er,
              rp_TransactorFee = Fee (transactorFee (fee_refreshed deps s)),
              rp_RRecoveryData = hex_EncodeToString encrypted\<rparr>"
  let ?s4 = "called (EvRequestPromise hermesCaller ?rq) s3"
  obtain promise err where rp: "caller_RequestPromise deps (history s3) hermesCaller ?rq = (promise, err)"
    by (cases "caller_RequestPromise deps (history s3) hermesCaller ?rq")
  obtain e s5 where h: "handleHermesError deps err (er_providerID er) ?hid ?s4 = (e, s5)"
    by (cases "handleHermesError deps err (er_providerID er) ?hid ?s4")
  have e5: "extends_history ?s4 s5" by (rule extends_handleHermesError [OF h])
  have rq: "requestPromise deps er s =
           chan_close (er_errChan er)
             (case e of
                Some x \<Rightarrow> chan_send (er_errChan er) (Wrapf ''hermes request promise error'' x) s5
              | None \<Rightarrow> requestPromise_store deps er channelID ?hid promise s5)"
    by (rule requestPromise_reaches_hermes [OF ch ma en ca rp h])
  have "extends_history ?s4 (requestPromise deps er s)"
  proof (cases e)
    case None
    have "extends_history s5 (requestPromise_store deps er channelID ?hid promise s5)"
      by (rule extends_store_stage)
    with e5 have "extends_history ?s4 (requestPromise_store deps er channelID ?hid promise s5)"
      by (rule extends_history_trans)
    with None rq show ?thesis by simp
  next
    case (Some x)
    with e5 rq show ?thesis by simp
  qed
  then show ?thesis by (simp add: extends_history_def)
qed

lemma recoverR_on_own_payload:
  assumes de: "Decrypt deps (history s') (ToCommonAddress deps providerID) encrypted = Inr plain"
    and un: "json_Unmarshal deps plain = Inr \<lparr>rd_R = rhex, rd_AgreementID = agreementID\<rparr>"
  shows "recoverR deps (cause, hex_EncodeToString encrypted) providerID hermesID s' =
           (case getHermesCaller deps hermesID
                   (called (EvDecrypt (ToCommonAddress deps providerID) encrypted) s') of
              (Inl err, s2) \<Rightarrow> (Some (Wrapf ''could not get hermes caller'' err), s2)
            | (Inr hermesCaller, s2) \<Rightarrow>
                (map_option (Wrapf ''could not reveal R'')
                   (caller_RevealR deps (history s2) hermesCaller rhex (Address providerID) agreementID),
                 called (EvRevealR hermesCaller rhex (Address providerID) agreementID) s2))"
  using de un
  by (simp add: recoverR_def Data_def hex_DecodeString_EncodeToString Let_def
      split: prod.splits sum.splits option.splits)

text \<open>
  C4, as stated, fails where the hermes caller cannot be resolved during the recovery.
  With a cipher whose \<open>Decrypt\<close> inverts \<open>Encrypt\<close>, the hermes answers the request with
  \<open>ErrNeedsRRecovery\<close> carrying exactly the payload it was sent; the payload is decoded
  and decrypted, then the URL getter fails: the request ends with that error and
  \<open>RevealR\<close> was never called.
\<close>

theorem recoverR_without_caller:
  "chanOps (requestPromise deps_urlgone er_ab NewHermesPromiseHandler) 0 =
     [ChanSend (Wrapf ''hermes request promise error''
        (Wrapf ''could not get hermes caller''
           (Wrapf ''could not get hermes URL'' (ErrorString ''unknown hermes'')))),
      ChanClose] \<and>
   filter is_RevealR (history (requestPromise deps_urlgone er_ab NewHermesPromiseHandler)) = [] \<and>
   EvDecrypt ''0xa0'' (rev ''{r:ab,agreement_id:42}'')
     \<in> set (history (requestPromise deps_urlgone er_ab NewHermesPromiseHandler))"
  by (simp add: requestPromise_def updateFee_def getHermesCaller_def handleHermesError_def
      recoverR_def Data_def hex_DecodeString_EncodeToString deps_urlgone_def deps_ok_def er_ab_def
      em_42_def details_ab_def providerP_def NewHermesPromiseHandler_def called_def chan_send_def
      chan_close_def hex_ab Let_def del: hex_EncodeToString.simps)

text \<open>
  C4, amended. Let \<open>requestPromise\<close> reach the hermes call: the channel id is derived,
  the details \<open>{R: hex(r), AgreementID}\<close> are marshalled to \<open>plain\<close>, encrypted for the
  provider's address to \<open>encrypted\<close>, and the hermes caller is resolved. Then the request
  it sends carries \<open>hex(encrypted)\<close> as its recovery data. Let \<open>Decrypt\<close> for the
  provider's address invert that \<open>Encrypt\<close> and \<open>json.Unmarshal\<close> invert that
  \<open>json.Marshal\<close>. Then \<open>recoverR\<close>, given that payload, decodes, decrypts and
  unmarshals it without error, and resolves the hermes caller; if that succeeds it calls
  \<open>RevealR\<close> with exactly \<open>hex(r)\<close>, the provider's address and the agreement id, and
  returns nil or the wrapped error of that call; if it fails, \<open>recoverR\<close> returns that
  failure and does not call \<open>RevealR\<close>.
\<close>

theorem recoverR_round_trip:
  assumes "GenerateProviderChannelID deps (Address (er_providerID er))
             (Hex deps (HexToAddress deps (em_HermesID (er_em er)))) = Inr channelID"
    and "json_Marshal deps \<lparr>rd_R = hex_EncodeToString (er_r er),
                              rd_AgreementID = em_AgreementID (er_em er)\<rparr> = Inr plain"
    and "Encrypt deps (history (fee_refreshed deps s)) (ToCommonAddress deps (er_providerID er)) plain =
           Inr encrypted"
    and "getHermesCaller deps (HexToAddress deps (em_HermesID (er_em er)))
           (called (EvEncrypt (ToCommonAddress deps (er_providerID er)) plain) (fee_refreshed deps s)) =
           (Inr hermesCaller, s3)"
    and "Decrypt deps (history s') (ToCommonAddress deps (er_providerID er)) encrypted = Inr plain"
    and "json_Unmarshal deps plain =
           Inr \<lparr>rd_R = hex_EncodeToString (er_r er), rd_AgreementID = em_AgreementID (er_em er)\<rparr>"
  shows "(\<exists>t. history (requestPromise deps er s) =
            history s3 @
            EvRequestPromise hermesCaller
              \<lparr>rp_ExchangeMessage = er_em er,
               rp_TransactorFee = Fee (transactorFee (fee_refreshed deps s)),
               rp_RRecoveryData = hex_EncodeToString encrypted\<rparr> # t) \<and>
         recoverR deps (cause, hex_EncodeToString encrypted) (er_providerID er) hermesID s' =
           (case getHermesCaller deps hermesID
                   (called (EvDecrypt (ToCommonAddress deps (er_providerID er)) encrypted) s') of
              (Inl err, s2) \<Rightarrow> (Some (Wrapf ''could not get hermes caller'' err), s2)
            | (Inr recoveryCaller, s2) \<Rightarrow>
                (map_option (Wrapf ''could not reveal R'')
                   (caller_RevealR deps (history s2) recoveryCaller (hex_EncodeToString (er_r er))
                      (Address (er_providerID er)) (em_AgreementID (er_em er))),
                 called (EvRevealR recoveryCaller (hex_EncodeToString (er_r er))
                           (Address (er_providerID er)) (em_AgreementID (er_em er))) s2))"
  using requestPromise_sends_payload [OF assms(1-4)] recoverR_on_own_payload [OF assms(5,6)]
  by blast

theorem recoverR_round_trip_witness:
  "(\<exists>t. history (requestPromise deps_ok er_ab NewHermesPromiseHandler) =
       [EvFetchSettleFees 1, EvEncrypt ''0xa0'' ''{r:ab,agreement_id:42}'', EvGetHermesURL ''0xe0'',
        EvHermesCallerFactory ''https://hermes''] @
       EvRequestPromise ''https://hermes''
         \<lparr>rp_ExchangeMessage = em_42, rp_TransactorFee = 1,
          rp_RRecoveryData = hex_EncodeToString (rev ''{r:ab,agreement_id:42}'')\<rparr> # t) \<and>
   recoverR deps_ok (ErrNeedsRRecovery, hex_EncodeToString (rev ''{r:ab,agreement_id:42}''))
     providerP ''0xe0'' NewHermesPromiseHandler =
     (None,
      NewHermesPromiseHandler
        \<lparr>history :=
           [EvDecrypt ''0xa0'' (rev ''{r:ab,agreement_id:42}''), EvGetHermesURL ''0xe0'',
            EvHermesCallerFactory ''https://hermes'', EvRevealR ''https://hermes'' ''ab'' ''0xa0'' 42]\<rparr>)"
proof -
  let ?json = "''{r:ab,agreement_id:42}''"
  let ?s1 = "fee_refreshed deps_ok NewHermesPromiseHandler"
  let ?s3 = "NewHermesPromiseHandler
               \<lparr>transactorFee := \<lparr>Fee = 1, ValidUntil = 100\<rparr>,
                history := [EvFetchSettleFees 1, EvEncrypt ''0xa0'' ?json, EvGetHermesURL ''0xe0'',
                            EvHermesCallerFactory ''https://hermes'']\<rparr>"
  have er: "er_providerID er_ab = providerP" "er_r er_ab = [CHR 0xAB]" "er_em er_ab = em_42"
    "em_HermesID em_42 = ''0xe0''" "em_AgreementID em_42 = 42" "Address providerP = ''0xa0''"
    by (simp_all add: er_ab_def em_42_def providerP_def)
  have lib: "HexToAddress deps_ok x = x" "Hex deps_ok x = x" "ToCommonAddress deps_ok providerP = ''0xa0''"
    for x
    by (simp_all add: deps_ok_def providerP_def)
  have s1: "?s1 = NewHermesPromiseHandler
                    \<lparr>transactorFee := \<lparr>Fee = 1, ValidUntil = 100\<rparr>, history := [EvFetchSettleFees 1]\<rparr>"
    by (simp add: fee_refreshed_def updateFee_def deps_ok_def NewHermesPromiseHandler_def called_def)
  have h1: "GenerateProviderChannelID deps_ok (Address (er_providerID er_ab))
              (Hex deps_ok (HexToAddress deps_ok (em_HermesID (er_em er_ab)))) = Inr ''0xa00xe0''"
    by (simp add: er lib) (simp add: deps_ok_def)
  have h2: "json_Marshal deps_ok \<lparr>rd_R = hex_EncodeToString (er_r er_ab),
              rd_AgreementID = em_AgreementID (er_em er_ab)\<rparr> = Inr ?json"
    by (simp add: er hex_ab deps_ok_def details_ab_def del: hex_EncodeToString.simps)
  have h3: "Encrypt deps_ok (history ?s1) (ToCommonAddress deps_ok (er_providerID er_ab)) ?json =
              Inr (rev ?json)"
    by (simp add: deps_ok_def)
  have h4: "getHermesCaller deps_ok (HexToAddress deps_ok (em_HermesID (er_em er_ab)))
              (called (EvEncrypt (ToCommonAddress deps_ok (er_providerID er_ab)) ?json) ?s1) =
              (Inr ''https://hermes'', ?s3)"
    unfolding s1 er lib
    by (simp add: getHermesCaller_def deps_ok_def called_def NewHermesPromiseHandler_def)
  have h5: "Decrypt deps_ok (history NewHermesPromiseHandler) (ToCommonAddress deps_ok (er_providerID er_ab))
              (rev ?json) = Inr ?json"
    by (simp add: deps_ok_def)
  have h6: "json_Unmarshal deps_ok ?json =
              Inr \<lparr>rd_R = hex_EncodeToString (er_r er_ab), rd_AgreementID = em_AgreementID (er_em er_ab)\<rparr>"
    by (simp add: er hex_ab deps_ok_def details_ab_def del: hex_EncodeToString.simps)
  have fee: "Fee (transactorFee ?s1) = 1" by (simp add: s1)
  have hist3: "history ?s3 = [EvFetchSettleFees 1, EvEncrypt ''0xa0'' ?json, EvGetHermesURL ''0xe0'',
                              EvHermesCallerFactory ''https://hermes'']"
    by simp
  have g: "getHermesCaller deps_ok ''0xe0''
             (called (EvDecrypt ''0xa0'' (rev ?json)) NewHermesPromiseHandler) =
           (Inr ''https://hermes'',
            NewHermesPromiseHandler
              \<lparr>history := [EvDecrypt ''0xa0'' (rev ?json), EvGetHermesURL ''0xe0'',
                           EvHermesCallerFactory ''https://hermes'']\<rparr>)"
    by (simp add: getHermesCaller_def deps_ok_def called_def NewHermesPromiseHandler_def)
  have rv: "caller_RevealR deps_ok h u r p a = None" for h u r p a
    by (simp add: deps_ok_def)
  from recoverR_round_trip [OF h1 h2 h3 h4 h5 h6, of ErrNeedsRRecovery "''0xe0''"]
  show ?thesis
    unfolding fee hist3 er lib g
    by (simp add: rv hex_ab called_def del: hex_EncodeToString.simps)
qed

end
